theory Spec2Isabelle
  imports Complex_Main "HOL-Library.AList" "HOL-Library.Sublist"
begin

section \<open>The todo list of \<^verbatim>\<open>src/pages/index.tsx\<close>\<close>

text \<open>
  The component \<^verbatim>\<open>TodoList\<close> keeps its model in React state cells and changes it in
  event handlers. Each handler is embedded as a function from the component state to
  the next component state; what a handler reads from the host (the clock, the storage
  slot, the JSON and Date built-ins) is an argument of its embedding. Events are taken one
  at a time, with a render between two of them, so that each handler reads the cells as
  the handler before it left them.

  The source file holds the component twice. The second copy has no editing (no
  \<^verbatim>\<open>editingId\<close>, \<^verbatim>\<open>editText\<close>, \<^verbatim>\<open>startEditing\<close>, \<^verbatim>\<open>saveEdit\<close>, \<^verbatim>\<open>cancelEdit\<close>); its effects and
  its other handlers are those of the first copy, word for word. The embedding is of the
  first copy.

  A JavaScript string is a \<^typ>\<open>string\<close>: a \<^typ>\<open>char\<close> stands for a UTF-16 code unit below
  \<^verbatim>\<open>0x100\<close>; code units above that are outside the model.
\<close>

subsection \<open>Data model\<close>

text \<open>
  A \<^verbatim>\<open>Date\<close> object holds a time value, an integral number of milliseconds since the
  epoch, or \<^verbatim>\<open>NaN\<close> (the "Invalid Date").
\<close>

datatype Date = TimeValue int | InvalidDate

text \<open>
  \<^verbatim>\<open>interface Todo { id: string; text: string; completed: boolean; createdAt: Date }\<close>.
  The fields \<^verbatim>\<open>id\<close> and \<^verbatim>\<open>text\<close> carry a prime, their names being taken in Isabelle.
\<close>

record Todo =
  id' :: string
  text' :: string
  completed :: bool
  createdAt :: Date

text \<open>The union type \<^verbatim>\<open>'all' | 'active' | 'completed'\<close> of the filter cell.\<close>

datatype filter_mode = F_all | F_active | F_completed

text \<open>The state cells of the component, in the order of their \<^verbatim>\<open>useState\<close> calls.\<close>

record TodoList =
  todos :: "Todo list"
  inputValue :: string
  filter' :: filter_mode
  editingId :: "string option"
  editText :: string

definition initial :: TodoList where
  "initial = \<lparr>todos = [], inputValue = [], filter' = F_all, editingId = None, editText = []\<rparr>"

subsection \<open>Host functions on strings and numbers\<close>

text \<open>
  \<^verbatim>\<open>String.prototype.trim\<close> removes white space and line terminators from both ends.
  Below \<^verbatim>\<open>0x100\<close> these are TAB, LF, VT, FF, CR, SPACE and NO-BREAK SPACE.
\<close>

definition isWhiteSpace :: "char \<Rightarrow> bool" where
  "isWhiteSpace c = (of_char c \<in> {9, 10, 11, 12, 13, 32, 160 :: nat})"

definition trim :: "string \<Rightarrow> string" where
  "trim s = rev (dropWhile isWhiteSpace (rev (dropWhile isWhiteSpace s)))"

text \<open>
  \<^verbatim>\<open>Number.prototype.toString\<close> on an integral number below \<^verbatim>\<open>1e21\<close> in size, which every
  clock reading is: the decimal digits, after a minus sign for a negative number.
\<close>

fun digits :: "nat \<Rightarrow> string" where
  "digits n = (if n < 10 then [''0123456789'' ! n]
               else digits (n div 10) @ [''0123456789'' ! (n mod 10)])"

declare digits.simps [simp del]

definition Number_toString :: "int \<Rightarrow> string" where
  "Number_toString i = (if i < 0 then CHR ''-'' # digits (nat (- i)) else digits (nat i))"

subsection \<open>The event handlers\<close>

text \<open>
  \<^verbatim>\<open>addTodo\<close> reads the clock twice: \<^verbatim>\<open>Date.now()\<close> for the id, then \<^verbatim>\<open>new Date()\<close> for
  \<^verbatim>\<open>createdAt\<close>. The two readings are the arguments \<open>now\<close> and \<open>created\<close>.
\<close>

definition addTodo :: "int \<Rightarrow> int \<Rightarrow> TodoList \<Rightarrow> TodoList" where
  "addTodo now created s =
     (if trim (inputValue s) = [] then s
      else
        let newTodo = \<lparr>id' = Number_toString now, text' = trim (inputValue s),
                        completed = False, createdAt = TimeValue created\<rparr>
        in s\<lparr>todos := newTodo # todos s, inputValue := []\<rparr>)"

definition toggleTodo :: "string \<Rightarrow> TodoList \<Rightarrow> TodoList" where
  "toggleTodo i s =
     s\<lparr>todos := map (\<lambda>todo. if id' todo = i then todo\<lparr>completed := \<not> completed todo\<rparr> else todo)
                    (todos s)\<rparr>"

definition deleteTodo :: "string \<Rightarrow> TodoList \<Rightarrow> TodoList" where
  "deleteTodo i s = s\<lparr>todos := filter (\<lambda>todo. id' todo \<noteq> i) (todos s)\<rparr>"

definition clearCompleted :: "TodoList \<Rightarrow> TodoList" where
  "clearCompleted s = s\<lparr>todos := filter (\<lambda>todo. \<not> completed todo) (todos s)\<rparr>"

definition startEditing :: "Todo \<Rightarrow> TodoList \<Rightarrow> TodoList" where
  "startEditing todo s = s\<lparr>editingId := Some (id' todo), editText := text' todo\<rparr>"

text \<open>
  \<^verbatim>\<open>if (editingId && editText.trim())\<close>: both operands are tested for truthiness, and the
  empty string is falsy like \<^verbatim>\<open>null\<close>.
\<close>

definition saveEdit :: "TodoList \<Rightarrow> TodoList" where
  "saveEdit s =
     (if (case editingId s of None \<Rightarrow> False | Some e \<Rightarrow> e \<noteq> []) \<and> trim (editText s) \<noteq> []
      then s\<lparr>todos := map (\<lambda>todo. if Some (id' todo) = editingId s
                                   then todo\<lparr>text' := trim (editText s)\<rparr> else todo)
                           (todos s),
             editingId := None, editText := []\<rparr>
      else s)"

definition cancelEdit :: "TodoList \<Rightarrow> TodoList" where
  "cancelEdit s = s\<lparr>editingId := None, editText := []\<rparr>"

definition filteredTodos :: "TodoList \<Rightarrow> Todo list" where
  "filteredTodos s =
     filter (\<lambda>todo. if filter' s = F_active then \<not> completed todo
                    else if filter' s = F_completed then completed todo
                    else True)
            (todos s)"

definition itemsLeft :: "TodoList \<Rightarrow> nat" where
  "itemsLeft s = length (filter (\<lambda>todo. \<not> completed todo) (todos s))"

subsection \<open>The operations of the store, as the user interface composes them\<close>

text \<open>
  \<open>add\<close> is the \<^verbatim>\<open>onChange\<close> of the input box (\<^verbatim>\<open>setInputValue\<close>) followed by \<^verbatim>\<open>addTodo\<close>;
  \<open>edit\<close> is \<^verbatim>\<open>startEditing\<close> on a task, the \<^verbatim>\<open>onChange\<close> of the edit box (\<^verbatim>\<open>setEditText\<close>)
  and \<^verbatim>\<open>saveEdit\<close>; \<open>filter_by\<close> is \<^verbatim>\<open>setFilter\<close> followed by reading \<^verbatim>\<open>filteredTodos\<close>.
\<close>

definition add :: "string \<Rightarrow> int \<Rightarrow> int \<Rightarrow> TodoList \<Rightarrow> TodoList" where
  "add input now created s = addTodo now created (s\<lparr>inputValue := input\<rparr>)"

definition edit :: "string \<Rightarrow> string \<Rightarrow> TodoList \<Rightarrow> TodoList" where
  "edit i newText s = saveEdit (s\<lparr>editingId := Some i, editText := newText\<rparr>)"

definition filter_by :: "filter_mode \<Rightarrow> TodoList \<Rightarrow> Todo list" where
  "filter_by m s = filteredTodos (s\<lparr>filter' := m\<rparr>)"

subsection \<open>Values at run time\<close>

text \<open>
  The load effect works on what \<^verbatim>\<open>JSON.parse\<close> returns, typed \<^verbatim>\<open>any\<close>: nothing checks
  that it is an array of task records. Its embedding therefore works on JavaScript
  values. A JSON number is a rational; an object is the list of its own enumerable
  properties in their order. \<open>JUndefined\<close> (what reading a missing property gives) and
  \<open>JDate\<close> (a \<^verbatim>\<open>Date\<close> object) are no JSON values and appear only while loading.
\<close>

datatype jsval =
    JUndefined
  | JNull
  | JBoolean bool
  | JNumber rat
  | JString string
  | JDate Date
  | JArray "jsval list"
  | JObject "(string \<times> jsval) list"

datatype exn = SyntaxError | TypeError

text \<open>
  The built-ins of the host that the component calls and whose text-level behaviour is
  not modelled here:
  \<^item> \<open>JSON_parse\<close>: \<^verbatim>\<open>JSON.parse\<close>, \<open>None\<close> where it throws a \<^verbatim>\<open>SyntaxError\<close>;
  \<^item> \<open>JSON_text\<close>: the text \<^verbatim>\<open>JSON.stringify\<close> writes for a JSON value;
  \<^item> \<open>Date_parse\<close>: \<^verbatim>\<open>Date.parse\<close>, as the \<^verbatim>\<open>Date\<close> holding its result;
  \<^item> \<open>Date_toISOString\<close>: \<^verbatim>\<open>Date.prototype.toISOString\<close> on a time value;
  \<^item> \<open>Date_of_object\<close>: \<^verbatim>\<open>new Date(v)\<close> for an array or a plain object \<open>v\<close>, which goes
    through \<^verbatim>\<open>ToPrimitive\<close> and may throw.
\<close>

record host =
  JSON_parse :: "string \<Rightarrow> jsval option"
  JSON_text :: "jsval \<Rightarrow> string"
  Date_parse :: "string \<Rightarrow> Date"
  Date_toISOString :: "int \<Rightarrow> string"
  Date_of_object :: "jsval \<Rightarrow> exn + Date"

text \<open>
  \<^verbatim>\<open>TimeClip\<close>: a number beyond \<^verbatim>\<open>8.64e15\<close> in size is no time value; any other is
  truncated towards zero.
\<close>

definition TimeClip :: "rat \<Rightarrow> Date" where
  "TimeClip q =
     (if \<bar>q\<bar> > 8640000000000000 then InvalidDate
      else TimeValue (if q < 0 then - \<lfloor>- q\<rfloor> else \<lfloor>q\<rfloor>))"

text \<open>
  \<^verbatim>\<open>new Date(value)\<close>: a string is parsed; any other primitive is converted to a number
  (\<^verbatim>\<open>undefined\<close> to \<^verbatim>\<open>NaN\<close>, \<^verbatim>\<open>null\<close> to 0, \<^verbatim>\<open>false\<close> and \<^verbatim>\<open>true\<close> to 0 and 1) and clipped; a
  \<^verbatim>\<open>Date\<close> is copied.
\<close>

fun new_Date :: "host \<Rightarrow> jsval \<Rightarrow> exn + Date" where
  "new_Date h JUndefined = Inr InvalidDate"
| "new_Date h JNull = Inr (TimeValue 0)"
| "new_Date h (JBoolean b) = Inr (TimeValue (if b then 1 else 0))"
| "new_Date h (JNumber q) = Inr (TimeClip q)"
| "new_Date h (JString s) = Inr (Date_parse h s)"
| "new_Date h (JDate d) = Inr d"
| "new_Date h (JArray xs) = Date_of_object h (JArray xs)"
| "new_Date h (JObject kvs) = Date_of_object h (JObject kvs)"

text \<open>
  \<^verbatim>\<open>todo.createdAt\<close>: a \<^verbatim>\<open>TypeError\<close> on \<^verbatim>\<open>null\<close> and \<^verbatim>\<open>undefined\<close>; the property of an object,
  \<^verbatim>\<open>undefined\<close> when it has none; \<^verbatim>\<open>undefined\<close> on every other value, none of which has a
  property of that name.
\<close>

fun Get_createdAt :: "jsval \<Rightarrow> exn + jsval" where
  "Get_createdAt JUndefined = Inl TypeError"
| "Get_createdAt JNull = Inl TypeError"
| "Get_createdAt (JObject kvs) =
     Inr (case map_of kvs ''createdAt'' of None \<Rightarrow> JUndefined | Some v \<Rightarrow> v)"
| "Get_createdAt v = Inr JUndefined"

text \<open>
  The spread \<^verbatim>\<open>{...todo}\<close> copies the own enumerable properties: those of an object, the
  elements of an array and the characters of a string under their indices, and nothing
  of any other value.
\<close>

definition indexed :: "jsval list \<Rightarrow> (string \<times> jsval) list" where
  "indexed xs = zip (map (\<lambda>k. Number_toString (int k)) [0..<length xs]) xs"

fun spread :: "jsval \<Rightarrow> (string \<times> jsval) list" where
  "spread (JObject kvs) = kvs"
| "spread (JArray xs) = indexed xs"
| "spread (JString s) = indexed (map (\<lambda>c. JString [c]) s)"
| "spread v = []"

text \<open>
  The callback of \<^verbatim>\<open>parsedTodos.map\<close>:
  \<^verbatim>\<open>(todo: any) => ({ ...todo, createdAt: new Date(todo.createdAt) })\<close>.
  A property written after a spread takes the place of a copied one of the same name, or
  comes last.
\<close>

definition reviveTodo :: "host \<Rightarrow> jsval \<Rightarrow> exn + jsval" where
  "reviveTodo h todo =
     (case Get_createdAt todo of
        Inl e \<Rightarrow> Inl e
      | Inr c \<Rightarrow>
          (case new_Date h c of
             Inl e \<Rightarrow> Inl e
           | Inr d \<Rightarrow> Inr (JObject (AList.update ''createdAt'' (JDate d) (spread todo)))))"

text \<open>
  \<^verbatim>\<open>parsedTodos.map(f)\<close>: only an array has a \<^verbatim>\<open>map\<close> method; on any other value the call
  throws a \<^verbatim>\<open>TypeError\<close>. The first element on which \<open>f\<close> throws ends the call.
\<close>

fun mapE :: "('a \<Rightarrow> exn + 'b) \<Rightarrow> 'a list \<Rightarrow> exn + 'b list" where
  "mapE f [] = Inr []"
| "mapE f (x # xs) =
     (case f x of
        Inl e \<Rightarrow> Inl e
      | Inr y \<Rightarrow> (case mapE f xs of Inl e \<Rightarrow> Inl e | Inr ys \<Rightarrow> Inr (y # ys)))"

definition Array_map :: "(jsval \<Rightarrow> exn + jsval) \<Rightarrow> jsval \<Rightarrow> exn + jsval list" where
  "Array_map f v = (case v of JArray xs \<Rightarrow> mapE f xs | _ \<Rightarrow> Inl TypeError)"

subsection \<open>Loading and saving\<close>

text \<open>
  The body of the \<^verbatim>\<open>try\<close> block of the load effect, up to the argument of \<^verbatim>\<open>setTodos\<close>.
\<close>

definition load_try :: "host \<Rightarrow> string \<Rightarrow> exn + jsval list" where
  "load_try h savedTodos =
     (case JSON_parse h savedTodos of
        None \<Rightarrow> Inl SyntaxError
      | Some parsedTodos \<Rightarrow> Array_map (reviveTodo h) parsedTodos)"

text \<open>
  The load effect, run once on mount, when the \<^verbatim>\<open>todos\<close> cell holds \<^verbatim>\<open>[]\<close>. Its argument is
  what \<^verbatim>\<open>localStorage.getItem('todos')\<close> returned (\<open>None\<close> for \<^verbatim>\<open>null\<close>); its result is the
  content of the \<^verbatim>\<open>todos\<close> cell afterwards and what was passed to \<^verbatim>\<open>console.error\<close>.
  \<^verbatim>\<open>if (savedTodos)\<close> is false on \<^verbatim>\<open>null\<close> and on the empty string. The \<^verbatim>\<open>catch\<close> clause takes
  every exception of the \<^verbatim>\<open>try\<close> block.
\<close>

definition load :: "host \<Rightarrow> string option \<Rightarrow> jsval list \<times> exn list" where
  "load h stored =
     (case stored of
        None \<Rightarrow> ([], [])
      | Some savedTodos \<Rightarrow>
          if savedTodos = [] then ([], [])
          else (case load_try h savedTodos of
                  Inl error \<Rightarrow> ([], [error])
                | Inr todosWithDates \<Rightarrow> (todosWithDates, [])))"

text \<open>
  A \<^verbatim>\<open>Todo\<close> as a value at run time, its properties in the order \<^verbatim>\<open>addTodo\<close> writes them,
  and the reading of a run-time value at the type \<^verbatim>\<open>Todo\<close>: \<open>None\<close> when a field is missing
  or of another type.
\<close>

definition ofTodo :: "Todo \<Rightarrow> jsval" where
  "ofTodo t =
     JObject [(''id'', JString (id' t)), (''text'', JString (text' t)),
              (''completed'', JBoolean (completed t)), (''createdAt'', JDate (createdAt t))]"

fun asTodo :: "jsval \<Rightarrow> Todo option" where
  "asTodo (JObject kvs) =
     (case (map_of kvs ''id'', map_of kvs ''text'', map_of kvs ''completed'',
            map_of kvs ''createdAt'') of
        (Some (JString i), Some (JString t), Some (JBoolean c), Some (JDate d)) \<Rightarrow>
          Some \<lparr>id' = i, text' = t, completed = c, createdAt = d\<rparr>
      | _ \<Rightarrow> None)"
| "asTodo v = None"

fun asTodos :: "jsval list \<Rightarrow> Todo list option" where
  "asTodos [] = Some []"
| "asTodos (v # vs) =
     (case asTodo v of
        None \<Rightarrow> None
      | Some t \<Rightarrow> (case asTodos vs of None \<Rightarrow> None | Some ts \<Rightarrow> Some (t # ts)))"

text \<open>
  The save effect: \<^verbatim>\<open>localStorage.setItem('todos', JSON.stringify(todos))\<close>.
  \<^verbatim>\<open>JSON.stringify\<close> replaces a \<^verbatim>\<open>Date\<close> by the result of its \<^verbatim>\<open>toJSON\<close> method, which is
  \<^verbatim>\<open>null\<close> for an invalid date and \<^verbatim>\<open>toISOString()\<close> otherwise. A task is written with the
  four properties of its interface, in the order in which \<^verbatim>\<open>addTodo\<close> creates them. \<open>save\<close>
  is the string written to the slot.
\<close>

definition Date_toJSON :: "host \<Rightarrow> Date \<Rightarrow> jsval" where
  "Date_toJSON h d = (case d of InvalidDate \<Rightarrow> JNull | TimeValue ms \<Rightarrow> JString (Date_toISOString h ms))"

definition Todo_toJSON :: "host \<Rightarrow> Todo \<Rightarrow> jsval" where
  "Todo_toJSON h t =
     JObject [(''id'', JString (id' t)), (''text'', JString (text' t)),
              (''completed'', JBoolean (completed t)),
              (''createdAt'', Date_toJSON h (createdAt t))]"

definition save :: "host \<Rightarrow> Todo list \<Rightarrow> string" where
  "save h ts = JSON_text h (JArray (map (Todo_toJSON h) ts))"

text \<open>
  What a task is after it was saved and loaded again: an invalid date, written as \<^verbatim>\<open>null\<close>,
  has become the epoch; a task with a valid date is as it was.
\<close>

definition reloaded :: "Todo \<Rightarrow> Todo" where
  "reloaded t = (case createdAt t of InvalidDate \<Rightarrow> t\<lparr>createdAt := TimeValue 0\<rparr> | TimeValue ms \<Rightarrow> t)"

subsection \<open>The storage contract of the specification\<close>

text \<open>
  The specification's persistent storage contract reads: the key maps to a JSON-encoded
  array of task records \<^verbatim>\<open>{id: string, text: string, completed: boolean, createdAt:
  ISO-8601 string}\<close>. \<open>task_of_record\<close> follows these words: it is the task that such a
  record stands for, its timestamp parsed from the string, and \<open>None\<close> on any other value.
\<close>

fun task_of_record :: "host \<Rightarrow> jsval \<Rightarrow> Todo option" where
  "task_of_record h (JObject kvs) =
     (case (map_of kvs ''id'', map_of kvs ''text'', map_of kvs ''completed'',
            map_of kvs ''createdAt'') of
        (Some (JString i), Some (JString t), Some (JBoolean c), Some (JString d)) \<Rightarrow>
          Some \<lparr>id' = i, text' = t, completed = c, createdAt = Date_parse h d\<rparr>
      | _ \<Rightarrow> None)"
| "task_of_record h v = None"

fun tasks_of_records :: "host \<Rightarrow> jsval list \<Rightarrow> Todo list option" where
  "tasks_of_records h [] = Some []"
| "tasks_of_records h (v # vs) =
     (case task_of_record h v of
        None \<Rightarrow> None
      | Some t \<Rightarrow> (case tasks_of_records h vs of None \<Rightarrow> None | Some ts \<Rightarrow> Some (t # ts)))"

text \<open>"A non-empty trimmed string", in the words of the specification's data model.\<close>

definition nonblank_trimmed :: "string \<Rightarrow> bool" where
  "nonblank_trimmed x = (x \<noteq> [] \<and> trim x = x)"

subsection \<open>Sample states\<close>

text \<open>
  The list of the scenario of the specification: "Buy milk" added at clock reading 1000,
  then "Walk dog" at clock reading 2000.
\<close>

definition two_tasks :: TodoList where
  "two_tasks = add ''Walk dog'' 2000 2000 (add ''Buy milk'' 1000 1000 initial)"

text \<open>The same two additions, both within the millisecond 1000 of the clock.\<close>

definition one_task :: TodoList where
  "one_task = add ''Buy milk'' 1000 1000 initial"

definition same_ms :: TodoList where
  "same_ms = add ''Walk dog'' 1000 1000 one_task"

text \<open>A list whose only task has the empty string as its id, and one whose only task has
  an invalid date.\<close>

definition blank_id :: TodoList where
  "blank_id =
     initial\<lparr>todos := [\<lparr>id' = [], text' = ''old'', completed = False, createdAt = TimeValue 0\<rparr>]\<rparr>"

definition undated :: "Todo list" where
  "undated = [\<lparr>id' = ''1'', text' = ''a'', completed = False, createdAt = InvalidDate\<rparr>]"

subsection \<open>A sample host\<close>

text \<open>
  Four contents of the storage slot, and a host fixed on the inputs that the examples
  below use. On these inputs its answers are those of the ECMAScript built-ins; elsewhere
  they are arbitrary, and no example reads them.
\<close>

definition stored_two_tasks :: string where
  \<open>stored_two_tasks = ''[{"id":"2000","text":"Walk dog","completed":false,"createdAt":"1970-01-01T00:00:02.000Z"},{"id":"1000","text":"Buy milk","completed":false,"createdAt":"1970-01-01T00:00:01.000Z"}]''\<close>

definition stored_undated :: string where
  \<open>stored_undated = ''[{"id":"1","text":"a","completed":false,"createdAt":null}]''\<close>

definition stored_partial :: string where
  \<open>stored_partial = ''[{"text":"a"}]''\<close>

definition stored_blank_id :: string where
  \<open>stored_blank_id = ''[{"id":"","text":"old","completed":false,"createdAt":"1970-01-01T00:00:00.000Z"}]''\<close>

definition sample_host :: host where
  "sample_host =
     \<lparr>JSON_parse = (\<lambda>s.
        if s = stored_two_tasks then
          Some (JArray
            [JObject [(''id'', JString ''2000''), (''text'', JString ''Walk dog''),
                      (''completed'', JBoolean False),
                      (''createdAt'', JString ''1970-01-01T00:00:02.000Z'')],
             JObject [(''id'', JString ''1000''), (''text'', JString ''Buy milk''),
                      (''completed'', JBoolean False),
                      (''createdAt'', JString ''1970-01-01T00:00:01.000Z'')]])
        else if s = stored_undated then
          Some (JArray
            [JObject [(''id'', JString ''1''), (''text'', JString ''a''),
                      (''completed'', JBoolean False), (''createdAt'', JNull)]])
        else if s = stored_partial then Some (JArray [JObject [(''text'', JString ''a'')]])
        else if s = stored_blank_id then
          Some (JArray
            [JObject [(''id'', JString []), (''text'', JString ''old''),
                      (''completed'', JBoolean False),
                      (''createdAt'', JString ''1970-01-01T00:00:00.000Z'')]])
        else if s = ''[]'' then Some (JArray [])
        else if s = ''[null]'' then Some (JArray [JNull])
        else if s = ''{}'' then Some (JObject [])
        else None),
      JSON_text = (\<lambda>v.
        if v = JArray
            [JObject [(''id'', JString ''2000''), (''text'', JString ''Walk dog''),
                      (''completed'', JBoolean False),
                      (''createdAt'', JString ''1970-01-01T00:00:02.000Z'')],
             JObject [(''id'', JString ''1000''), (''text'', JString ''Buy milk''),
                      (''completed'', JBoolean False),
                      (''createdAt'', JString ''1970-01-01T00:00:01.000Z'')]]
        then stored_two_tasks
        else if v = JArray
            [JObject [(''id'', JString ''1''), (''text'', JString ''a''),
                      (''completed'', JBoolean False), (''createdAt'', JNull)]]
        then stored_undated
        else ''[]''),
      Date_parse = (\<lambda>s.
        if s = ''1970-01-01T00:00:00.000Z'' then TimeValue 0
        else if s = ''1970-01-01T00:00:01.000Z'' then TimeValue 1000
        else if s = ''1970-01-01T00:00:02.000Z'' then TimeValue 2000
        else InvalidDate),
      Date_toISOString = (\<lambda>ms.
        if ms = 1000 then ''1970-01-01T00:00:01.000Z''
        else if ms = 2000 then ''1970-01-01T00:00:02.000Z''
        else ''1970-01-01T00:00:00.000Z''),
      Date_of_object = (\<lambda>v. Inr InvalidDate)\<rparr>"

subsection \<open>A host with a JSON printer and parser\<close>

text \<open>
  \<^verbatim>\<open>QuoteJSONString\<close>, by which \<^verbatim>\<open>JSON.stringify\<close> writes a string: between double quotes,
  with the double quote and the backslash escaped by a backslash, the control characters
  written \<^verbatim>\<open>\b\<close>, \<^verbatim>\<open>\t\<close>, \<^verbatim>\<open>\n\<close>, \<^verbatim>\<open>\f\<close>, \<^verbatim>\<open>\r\<close> or \<^verbatim>\<open>\u00\<close> and two lower-case hexadecimal digits, and
  every other code unit as it is.
\<close>

definition hexdigit :: "nat \<Rightarrow> char" where
  "hexdigit n = ''0123456789abcdef'' ! n"

definition hexval :: "char \<Rightarrow> nat option" where
  "hexval c = map_of (zip ''0123456789abcdefABCDEF'' [0, 1, 2, 3, 4, 5, 6, 7, 8, 9, 10, 11, 12, 13, 14, 15, 10, 11, 12, 13, 14, 15]) c"

definition JSON_escape :: "char \<Rightarrow> string" where
  "JSON_escape c =
     (if c = CHR 0x22 then [CHR 0x5C, CHR 0x22]
      else if c = CHR 0x5C then [CHR 0x5C, CHR 0x5C]
      else if c = CHR 0x08 then [CHR 0x5C, CHR ''b'']
      else if c = CHR 0x09 then [CHR 0x5C, CHR ''t'']
      else if c = CHR 0x0A then [CHR 0x5C, CHR ''n'']
      else if c = CHR 0x0C then [CHR 0x5C, CHR ''f'']
      else if c = CHR 0x0D then [CHR 0x5C, CHR ''r'']
      else if (of_char c :: nat) < 32
        then [CHR 0x5C, CHR ''u'', CHR ''0'', CHR ''0'', hexdigit (of_char c div 16),
              hexdigit (of_char c mod 16)]
      else [c])"

definition JSON_quote :: "string \<Rightarrow> string" where
  "JSON_quote s = CHR 0x22 # concat (map JSON_escape s) @ [CHR 0x22]"

text \<open>
  Reading a JSON string after its opening quote, up to the closing quote: the decoded
  string and the rest of the text. A control character that is not escaped, an unknown
  escape and a text that ends before the closing quote are errors.
\<close>

definition unescape :: "char \<Rightarrow> char option" where
  "unescape e =
     (if e = CHR 0x22 then Some (CHR 0x22)
      else if e = CHR 0x5C then Some (CHR 0x5C)
      else if e = CHR ''/'' then Some (CHR ''/'')
      else if e = CHR ''b'' then Some (CHR 0x08)
      else if e = CHR ''t'' then Some (CHR 0x09)
      else if e = CHR ''n'' then Some (CHR 0x0A)
      else if e = CHR ''f'' then Some (CHR 0x0C)
      else if e = CHR ''r'' then Some (CHR 0x0D)
      else None)"

definition hex4 :: "char \<Rightarrow> char \<Rightarrow> char \<Rightarrow> char \<Rightarrow> char option" where
  "hex4 a b x y =
     (case (hexval a, hexval b, hexval x, hexval y) of
        (Some p, Some q, Some r, Some s) \<Rightarrow>
          if ((p * 16 + q) * 16 + r) * 16 + s < 256
          then Some (char_of (((p * 16 + q) * 16 + r) * 16 + s)) else None
      | _ \<Rightarrow> None)"

fun unquote :: "string \<Rightarrow> (string \<times> string) option" where
  "unquote [] = None"
| "unquote (c # cs) =
     (if c = CHR 0x22 then Some ([], cs)
      else if c = CHR 0x5C then
        (case cs of
           [] \<Rightarrow> None
         | e # r \<Rightarrow>
             if e = CHR ''u'' then
               (case r of
                  a # b # x # y # r' \<Rightarrow>
                    (case hex4 a b x y of
                       None \<Rightarrow> None
                     | Some ch \<Rightarrow>
                         (case unquote r' of None \<Rightarrow> None | Some (s, rest) \<Rightarrow> Some (ch # s, rest)))
                | _ \<Rightarrow> None)
             else
               (case unescape e of
                  None \<Rightarrow> None
                | Some ch \<Rightarrow>
                    (case unquote r of None \<Rightarrow> None | Some (s, rest) \<Rightarrow> Some (ch # s, rest))))
      else if (of_char c :: nat) < 32 then None
      else (case unquote cs of None \<Rightarrow> None | Some (s, rest) \<Rightarrow> Some (c # s, rest)))"

declare unquote.simps(2) [simp del]

text \<open>
  The text of an array of flat records: \<^verbatim>\<open>true\<close>, \<^verbatim>\<open>false\<close>, \<^verbatim>\<open>null\<close> and quoted strings as
  values, members and elements separated by commas, no white space, as \<^verbatim>\<open>JSON.stringify\<close>
  writes it.
\<close>

definition JSON_flat :: "jsval \<Rightarrow> string" where
  "JSON_flat v =
     (case v of
        JBoolean b \<Rightarrow> (if b then ''true'' else ''false'')
      | JString s \<Rightarrow> JSON_quote s
      | _ \<Rightarrow> ''null'')"

definition JSON_member :: "string \<times> jsval \<Rightarrow> string" where
  "JSON_member kv = JSON_quote (fst kv) @ '':'' @ JSON_flat (snd kv)"

fun commas :: "string list \<Rightarrow> string" where
  "commas [] = []"
| "commas [x] = x"
| "commas (x # y # zs) = x @ '','' @ commas (y # zs)"

definition JSON_element :: "jsval \<Rightarrow> string" where
  "JSON_element v =
     (case v of
        JObject kvs \<Rightarrow> ''{'' @ commas (map JSON_member kvs) @ ''}''
      | _ \<Rightarrow> JSON_flat v)"

definition JSON_print :: "jsval \<Rightarrow> string" where
  "JSON_print v =
     (case v of
        JArray xs \<Rightarrow> ''['' @ commas (map JSON_element xs) @ '']''
      | _ \<Rightarrow> JSON_element v)"

text \<open>
  A parser for the texts that the save effect writes: an array of records with the
  properties \<^verbatim>\<open>id\<close>, \<^verbatim>\<open>text\<close>, \<^verbatim>\<open>completed\<close> and \<^verbatim>\<open>createdAt\<close>, in this order, the first two
  strings, the third a boolean and the last a string or \<^verbatim>\<open>null\<close>. \<open>expect p s\<close> takes the
  prefix \<open>p\<close> off \<open>s\<close>. The elements are read with as much fuel as the text is long.
\<close>

fun expect :: "string \<Rightarrow> string \<Rightarrow> string option" where
  "expect [] s = Some s"
| "expect (p # ps) [] = None"
| "expect (p # ps) (c # cs) = (if p = c then expect ps cs else None)"

definition parse_boolean :: "string \<Rightarrow> (jsval \<times> string) option" where
  "parse_boolean s =
     (case expect ''true'' s of
        Some r \<Rightarrow> Some (JBoolean True, r)
      | None \<Rightarrow> (case expect ''false'' s of Some r \<Rightarrow> Some (JBoolean False, r) | None \<Rightarrow> None))"

definition parse_string :: "string \<Rightarrow> (jsval \<times> string) option" where
  "parse_string s =
     (case expect [CHR 0x22] s of
        None \<Rightarrow> None
      | Some r \<Rightarrow> (case unquote r of None \<Rightarrow> None | Some (x, r') \<Rightarrow> Some (JString x, r')))"

definition parse_string_or_null :: "string \<Rightarrow> (jsval \<times> string) option" where
  "parse_string_or_null s =
     (case expect ''null'' s of Some r \<Rightarrow> Some (JNull, r) | None \<Rightarrow> parse_string s)"

definition parse_task :: "string \<Rightarrow> (jsval \<times> string) option" where
  \<open>parse_task s =
     (case expect ''{"id":'' s of None \<Rightarrow> None | Some r1 \<Rightarrow>
      (case parse_string r1 of None \<Rightarrow> None | Some (i, r2) \<Rightarrow>
      (case expect '',"text":'' r2 of None \<Rightarrow> None | Some r3 \<Rightarrow>
      (case parse_string r3 of None \<Rightarrow> None | Some (t, r4) \<Rightarrow>
      (case expect '',"completed":'' r4 of None \<Rightarrow> None | Some r5 \<Rightarrow>
      (case parse_boolean r5 of None \<Rightarrow> None | Some (c, r6) \<Rightarrow>
      (case expect '',"createdAt":'' r6 of None \<Rightarrow> None | Some r7 \<Rightarrow>
      (case parse_string_or_null r7 of None \<Rightarrow> None | Some (d, r8) \<Rightarrow>
      (case expect ''}'' r8 of None \<Rightarrow> None | Some r9 \<Rightarrow>
         Some (JObject [(''id'', i), (''text'', t), (''completed'', c), (''createdAt'', d)],
               r9))))))))))\<close>

fun parse_tasks :: "nat \<Rightarrow> string \<Rightarrow> jsval list option" where
  "parse_tasks 0 s = None"
| "parse_tasks (Suc n) s =
     (case parse_task s of
        None \<Rightarrow> None
      | Some (t, r) \<Rightarrow>
          (case r of
             [] \<Rightarrow> None
           | c # r' \<Rightarrow>
               if c = CHR '']'' then (if r' = [] then Some [t] else None)
               else if c = CHR '','' then
                 (case parse_tasks n r' of None \<Rightarrow> None | Some ts \<Rightarrow> Some (t # ts))
               else None))"

definition parse_array :: "string \<Rightarrow> jsval option" where
  "parse_array s =
     (case expect ''['' s of
        None \<Rightarrow> None
      | Some r \<Rightarrow> if r = '']'' then Some (JArray []) else map_option JArray (parse_tasks (length r) r))"

text \<open>
  The sample host with this printer and this parser as its JSON functions. On the texts
  that the save effect writes, its \<^verbatim>\<open>JSON.parse\<close> answers as the built-in does; on any other
  text it answers \<open>None\<close>, and no example reads it there.
\<close>

definition codec_host :: host where
  "codec_host = sample_host\<lparr>JSON_parse := parse_array, JSON_text := JSON_print\<rparr>"

section \<open>Properties of the handlers\<close>

subsection \<open>What each handler does to the list\<close>

lemma todos_toggleTodo:
  "todos (toggleTodo i s) =
     map (\<lambda>todo. if id' todo = i then todo\<lparr>completed := \<not> completed todo\<rparr> else todo) (todos s)"
  by (simp add: toggleTodo_def)

lemma todos_deleteTodo: "todos (deleteTodo i s) = filter (\<lambda>todo. id' todo \<noteq> i) (todos s)"
  by (simp add: deleteTodo_def)

lemma todos_clearCompleted:
  "todos (clearCompleted s) = filter (\<lambda>todo. \<not> completed todo) (todos s)"
  by (simp add: clearCompleted_def)

lemma todos_edit:
  "todos (edit i newText s) =
     (if i \<noteq> [] \<and> trim newText \<noteq> []
      then map (\<lambda>todo. if id' todo = i then todo\<lparr>text' := trim newText\<rparr> else todo) (todos s)
      else todos s)"
  by (auto simp: edit_def saveEdit_def)

lemma todos_two_tasks:
  "todos two_tasks =
     [\<lparr>id' = ''2000'', text' = ''Walk dog'', completed = False, createdAt = TimeValue 2000\<rparr>,
      \<lparr>id' = ''1000'', text' = ''Buy milk'', completed = False, createdAt = TimeValue 1000\<rparr>]"
  by (simp add: two_tasks_def add_def addTodo_def initial_def trim_def isWhiteSpace_def
      Number_toString_def digits.simps)

subsection \<open>Toggling\<close>

lemma flip_flip:
  "map (\<lambda>todo. if id' todo = i then todo\<lparr>completed := \<not> completed todo\<rparr> else todo)
     (map (\<lambda>todo. if id' todo = i then todo\<lparr>completed := \<not> completed todo\<rparr> else todo) xs) =
   (xs :: Todo list)"
  by (induction xs) auto

lemma toggleTodo_twice: "toggleTodo i (toggleTodo i s) = s"
  by (simp add: toggleTodo_def flip_flip del: map_map)

lemma flip_absent:
  "i \<notin> id' ` set xs \<Longrightarrow>
   map (\<lambda>todo. if id' todo = i then todo\<lparr>completed := \<not> completed todo\<rparr> else todo) xs =
   (xs :: Todo list)"
  by (induction xs) auto

lemma toggleTodo_absent: "i \<notin> id' ` set (todos s) \<Longrightarrow> toggleTodo i s = s"
  by (simp add: toggleTodo_def flip_absent)

text \<open>
  Claim C4. Toggling the same id twice gives back the state it started from. A single
  toggle keeps the length of the list and, at every position, negates \<open>completed\<close> when
  the task there has the id and leaves the task as it is otherwise; when no task has the
  id, the state does not change.
\<close>

theorem toggle_involution:
  "toggleTodo i (toggleTodo i s) = s
   \<and> length (todos (toggleTodo i s)) = length (todos s)
   \<and> (\<forall>k<length (todos s).
         todos (toggleTodo i s) ! k =
           (if id' (todos s ! k) = i then (todos s ! k)\<lparr>completed := \<not> completed (todos s ! k)\<rparr>
            else todos s ! k))
   \<and> (i \<notin> id' ` set (todos s) \<longrightarrow> toggleTodo i s = s)"
  by (simp add: toggleTodo_twice toggleTodo_absent todos_toggleTodo)

theorem toggle_involution_witness:
  "toggleTodo ''1000'' (toggleTodo ''1000'' two_tasks) = two_tasks
   \<and> (1::nat) < length (todos two_tasks)
   \<and> id' (todos two_tasks ! 1) = ''1000''
   \<and> completed (todos two_tasks ! 1) = False
   \<and> completed (todos (toggleTodo ''1000'' two_tasks) ! 1) = True
   \<and> ''77'' \<notin> id' ` set (todos two_tasks)
   \<and> toggleTodo ''77'' two_tasks = two_tasks"
  using toggle_involution [of "''1000''" two_tasks] toggle_involution [of "''77''" two_tasks]
  by (simp add: todos_two_tasks)

subsection \<open>Deleting and clearing\<close>

lemma keep_absent:
  "i \<notin> id' ` set xs \<Longrightarrow> filter (\<lambda>todo. id' todo \<noteq> i) xs = (xs :: Todo list)"
  by (induction xs) auto

text \<open>
  Claim C9. Deleting the same id a second time changes nothing; after a delete no task
  has the id; deleting an id that no task has leaves the state as it is.
\<close>

theorem delete_idempotent:
  "deleteTodo i (deleteTodo i s) = deleteTodo i s
   \<and> i \<notin> id' ` set (todos (deleteTodo i s))
   \<and> (i \<notin> id' ` set (todos s) \<longrightarrow> deleteTodo i s = s)"
  by (auto simp: deleteTodo_def keep_absent)

theorem delete_idempotent_witness:
  "deleteTodo ''1000'' (deleteTodo ''1000'' two_tasks) = deleteTodo ''1000'' two_tasks
   \<and> todos (deleteTodo ''1000'' two_tasks) =
       [\<lparr>id' = ''2000'', text' = ''Walk dog'', completed = False, createdAt = TimeValue 2000\<rparr>]
   \<and> ''77'' \<notin> id' ` set (todos two_tasks)
   \<and> deleteTodo ''77'' two_tasks = two_tasks"
  using delete_idempotent [of "''1000''" two_tasks] delete_idempotent [of "''77''" two_tasks]
  by (simp add: todos_two_tasks todos_deleteTodo)

text \<open>
  Claim C6. After \<open>clearCompleted\<close> no task of the list is completed; the tasks that were
  not completed are all still there, as often and in the order they were; every completed
  task of the old list is absent and every other one present; and the new list is a
  subsequence of the old one.
\<close>

theorem clearCompleted_exact:
  "(\<forall>t \<in> set (todos (clearCompleted s)). \<not> completed t)
   \<and> filter (\<lambda>t. \<not> completed t) (todos (clearCompleted s)) = filter (\<lambda>t. \<not> completed t) (todos s)
   \<and> (\<forall>t \<in> set (todos s). completed t \<longrightarrow> t \<notin> set (todos (clearCompleted s)))
   \<and> (\<forall>t \<in> set (todos s). \<not> completed t \<longrightarrow> t \<in> set (todos (clearCompleted s)))
   \<and> subseq (todos (clearCompleted s)) (todos s)"
  by (simp add: clearCompleted_def)

theorem clearCompleted_exact_witness:
  "todos (toggleTodo ''1000'' two_tasks) =
     [\<lparr>id' = ''2000'', text' = ''Walk dog'', completed = False, createdAt = TimeValue 2000\<rparr>,
      \<lparr>id' = ''1000'', text' = ''Buy milk'', completed = True, createdAt = TimeValue 1000\<rparr>]
   \<and> todos (clearCompleted (toggleTodo ''1000'' two_tasks)) =
     [\<lparr>id' = ''2000'', text' = ''Walk dog'', completed = False, createdAt = TimeValue 2000\<rparr>]"
  using clearCompleted_exact [of "toggleTodo ''1000'' two_tasks"]
  by (simp add: todos_two_tasks todos_toggleTodo todos_clearCompleted)

subsection \<open>What toggling and editing leave alone\<close>

text \<open>
  Claim C10. \<open>toggleTodo\<close> keeps the length of the list and the \<open>id\<close>, \<open>text\<close> and
  \<open>createdAt\<close> of the task at every position, and leaves every task with another id as
  it is. \<open>edit\<close> keeps the length of the list and the \<open>id\<close>, \<open>completed\<close> and \<open>createdAt\<close>
  of the task at every position, and leaves every task with another id as it is.
\<close>

theorem toggle_edit_frame:
  "length (todos (toggleTodo i s)) = length (todos s)
   \<and> map id' (todos (toggleTodo i s)) = map id' (todos s)
   \<and> map text' (todos (toggleTodo i s)) = map text' (todos s)
   \<and> map createdAt (todos (toggleTodo i s)) = map createdAt (todos s)
   \<and> (\<forall>k<length (todos s). id' (todos s ! k) \<noteq> i \<longrightarrow> todos (toggleTodo i s) ! k = todos s ! k)
   \<and> length (todos (edit i newText s)) = length (todos s)
   \<and> map id' (todos (edit i newText s)) = map id' (todos s)
   \<and> map completed (todos (edit i newText s)) = map completed (todos s)
   \<and> map createdAt (todos (edit i newText s)) = map createdAt (todos s)
   \<and> (\<forall>k<length (todos s). id' (todos s ! k) \<noteq> i \<longrightarrow> todos (edit i newText s) ! k = todos s ! k)"
  by (simp add: todos_toggleTodo todos_edit)

theorem toggle_edit_frame_witness:
  "(0::nat) < length (todos two_tasks) \<and> id' (todos two_tasks ! 0) \<noteq> ''1000''
   \<and> todos (toggleTodo ''1000'' two_tasks) ! 0 = todos two_tasks ! 0
   \<and> todos (edit ''1000'' ''Buy oat milk'' two_tasks) ! 0 = todos two_tasks ! 0
   \<and> todos (edit ''1000'' ''Buy oat milk'' two_tasks) ! 1 =
       \<lparr>id' = ''1000'', text' = ''Buy oat milk'', completed = False, createdAt = TimeValue 1000\<rparr>"
  using toggle_edit_frame [of "''1000''" two_tasks "''Buy oat milk''"]
  by (simp add: todos_two_tasks todos_edit trim_def isWhiteSpace_def)

subsection \<open>Trimming\<close>

lemma dropWhile_self: "xs = [] \<or> \<not> P (hd xs) \<Longrightarrow> dropWhile P xs = xs"
  by (cases xs) auto

lemma trim_Nil_or_ends:
  "trim s = [] \<or> (\<not> isWhiteSpace (hd (trim s)) \<and> \<not> isWhiteSpace (last (trim s)))"
proof (cases "dropWhile isWhiteSpace s = []")
  case True
  show ?thesis unfolding trim_def True by simp
next
  case False
  define a where "a = dropWhile isWhiteSpace s"
  have a: "a \<noteq> []" "\<not> isWhiteSpace (hd a)"
    using False hd_dropWhile [of isWhiteSpace s] by (simp_all add: a_def)
  then obtain x ys where xy: "a = x # ys" by (cases a) auto
  have nx: "\<not> isWhiteSpace x" using a xy by simp
  have r: "dropWhile isWhiteSpace (rev a) = dropWhile isWhiteSpace (rev ys) @ [x]"
    using nx xy by (simp add: dropWhile_append3)
  have t: "trim s = x # rev (dropWhile isWhiteSpace (rev ys))"
    using r by (simp add: trim_def a_def [symmetric])
  have l: "\<not> isWhiteSpace (last (trim s))"
  proof (cases "dropWhile isWhiteSpace (rev ys) = []")
    case True
    then show ?thesis using t nx by simp
  next
    case False
    then have "\<not> isWhiteSpace (hd (dropWhile isWhiteSpace (rev ys)))" by (rule hd_dropWhile)
    moreover have "last (trim s) = hd (dropWhile isWhiteSpace (rev ys))"
      unfolding t using False by (simp add: last_rev del: dropWhile_eq_Nil_conv)
    ultimately show ?thesis by simp
  qed
  show ?thesis using t nx l by simp
qed

lemma trim_fixed:
  "s = [] \<or> (\<not> isWhiteSpace (hd s) \<and> \<not> isWhiteSpace (last s)) \<Longrightarrow> trim s = s"
proof (cases "s = []")
  case True
  then show ?thesis by (simp add: trim_def)
next
  case False
  assume "s = [] \<or> (\<not> isWhiteSpace (hd s) \<and> \<not> isWhiteSpace (last s))"
  with False have h: "\<not> isWhiteSpace (hd s)" and l: "\<not> isWhiteSpace (last s)" by simp_all
  have 1: "dropWhile isWhiteSpace s = s" using h by (simp add: dropWhile_self)
  have "\<not> isWhiteSpace (hd (rev s))" using l False by (simp add: hd_rev)
  then have 2: "dropWhile isWhiteSpace (rev s) = rev s" by (simp add: dropWhile_self)
  show ?thesis by (simp add: trim_def 1 2)
qed

lemma trim_trim: "trim (trim s) = trim s"
  using trim_fixed [OF trim_Nil_or_ends] .

lemma nonblank_trimmed_trim: "trim x \<noteq> [] \<Longrightarrow> nonblank_trimmed (trim x)"
  by (simp add: nonblank_trimmed_def trim_trim)

lemma trim_samples:
  "trim ''Buy milk'' = ''Buy milk''" "trim ''Walk dog'' = ''Walk dog''"
  "trim ''  new  '' = ''new''" "trim '' Feed cat '' = ''Feed cat''"
  "trim [] = []" "trim ''   '' = []"
  by (simp_all add: trim_def isWhiteSpace_def)

lemma nonblank_trimmed_samples:
  "nonblank_trimmed ''new''" "nonblank_trimmed ''Walk dog''" "nonblank_trimmed ''Buy milk''"
  "nonblank_trimmed ''Feed cat''"
  by (simp_all add: nonblank_trimmed_def trim_def isWhiteSpace_def)

subsection \<open>Adding\<close>

lemma todos_add:
  "todos (add input now created s) =
     (if trim input = [] then todos s
      else \<lparr>id' = Number_toString now, text' = trim input, completed = False,
             createdAt = TimeValue created\<rparr> # todos s)"
  by (simp add: add_def addTodo_def Let_def)

lemma add_blank: "trim input = [] \<Longrightarrow> todos (add input now created s) = todos s"
  by (simp add: todos_add)

lemma add_nonblank:
  "trim input \<noteq> [] \<Longrightarrow>
   length (todos (add input now created s)) = length (todos s) + 1
   \<and> todos (add input now created s) ! 0 =
       \<lparr>id' = Number_toString now, text' = trim input, completed = False,
        createdAt = TimeValue created\<rparr>
   \<and> tl (todos (add input now created s)) = todos s"
  by (simp add: todos_add)

lemma add_keeps_distinct:
  "distinct (map id' (todos s)) \<Longrightarrow> Number_toString now \<notin> id' ` set (todos s) \<Longrightarrow>
   distinct (map id' (todos (add input now created s)))"
  by (simp add: todos_add)

text \<open>
  The ids that \<open>addTodo\<close> makes are the decimals of its clock readings, and different
  readings have different decimals. So the ids of the list stay pairwise distinct as long
  as every addition reads a clock value above those whose decimals are in the list;
  the other handlers make no id.
\<close>

lemma digit_code: "d < 10 \<Longrightarrow> of_char (''0123456789'' ! d) = (48 + d :: nat)"
proof -
  assume "d < 10"
  then have "d \<in> {0, 1, 2, 3, 4, 5, 6, 7, 8, 9}" by auto
  then show ?thesis by (elim insertE) simp_all
qed

lemma digits_value:
  "foldl (\<lambda>a c. 10 * a + (of_char c - 48)) 0 (digits n) = n"
proof (induction n rule: digits.induct)
  case (1 n)
  show ?case
  proof (cases "n < 10")
    case True
    then show ?thesis by (subst digits.simps) (simp add: digit_code)
  next
    case False
    have "n mod 10 < 10" by simp
    then have "of_char (''0123456789'' ! (n mod 10)) = (48 + n mod 10 :: nat)" by (rule digit_code)
    then show ?thesis using False 1 by (subst digits.simps) simp
  qed
qed

lemma digits_inj: "digits m = digits n \<Longrightarrow> m = n"
  by (metis digits_value)

lemma digits_chars: "c \<in> set (digits n) \<Longrightarrow> c \<in> set ''0123456789''"
proof (induction n rule: digits.induct)
  case (1 n)
  show ?case
  proof (cases "n < 10")
    case True
    with 1(2) have "c = ''0123456789'' ! n" by (subst (asm) digits.simps) simp
    moreover have "n < length ''0123456789''" using True by simp
    ultimately show ?thesis using nth_mem by blast
  next
    case False
    with 1(2) have "c \<in> set (digits (n div 10)) \<or> c = ''0123456789'' ! (n mod 10)"
      by (subst (asm) digits.simps) auto
    moreover have "n mod 10 < length ''0123456789''" by simp
    then have "''0123456789'' ! (n mod 10) \<in> set ''0123456789''" by (rule nth_mem)
    ultimately show ?thesis using 1(1) False by blast
  qed
qed

lemma digits_not_Nil: "digits n \<noteq> []"
  by (subst digits.simps) simp

lemma digits_no_minus: "digits n \<noteq> CHR ''-'' # cs"
proof
  assume "digits n = CHR ''-'' # cs"
  then have "CHR ''-'' \<in> set (digits n)" by simp
  then have "CHR ''-'' \<in> set ''0123456789''" by (rule digits_chars)
  then show False by simp
qed

lemma Number_toString_inj: "Number_toString i = Number_toString j \<Longrightarrow> i = j"
proof -
  assume e: "Number_toString i = Number_toString j"
  consider "i < 0" "j < 0" | "i < 0" "\<not> j < 0" | "\<not> i < 0" "j < 0" | "\<not> i < 0" "\<not> j < 0" by blast
  then show ?thesis
  proof cases
    case 1
    with e have "digits (nat (- i)) = digits (nat (- j))" by (simp add: Number_toString_def)
    then have "nat (- i) = nat (- j)" by (rule digits_inj)
    with 1 show ?thesis by simp
  next
    case 2
    with e have "digits (nat j) = CHR ''-'' # digits (nat (- i))" by (simp add: Number_toString_def)
    then show ?thesis using digits_no_minus by blast
  next
    case 3
    with e have "digits (nat i) = CHR ''-'' # digits (nat (- j))" by (simp add: Number_toString_def)
    then show ?thesis using digits_no_minus by blast
  next
    case 4
    with e have "digits (nat i) = digits (nat j)" by (simp add: Number_toString_def)
    then have "nat i = nat j" by (rule digits_inj)
    with 4 show ?thesis by simp
  qed
qed

lemma Number_toString_not_Nil: "Number_toString i \<noteq> []"
  by (simp add: Number_toString_def digits_not_Nil)

lemma add_advancing_clock:
  assumes "distinct (map id' (todos s))"
    and "\<forall>t \<in> set (todos s). \<exists>n<now. id' t = Number_toString n"
  shows "distinct (map id' (todos (add input now created s)))
     \<and> (\<forall>t \<in> set (todos (add input now created s)). \<exists>n<now + 1. id' t = Number_toString n)"
proof -
  have "Number_toString now \<notin> id' ` set (todos s)"
  proof
    assume "Number_toString now \<in> id' ` set (todos s)"
    then obtain t where "t \<in> set (todos s)" "id' t = Number_toString now" by auto
    with assms(2) obtain n where "n < now" "Number_toString n = Number_toString now" by metis
    then show False using Number_toString_inj by blast
  qed
  then have 1: "distinct (map id' (todos (add input now created s)))"
    using assms(1) by (rule add_keeps_distinct [rotated])
  have 2: "\<forall>t \<in> set (todos (add input now created s)). \<exists>n<now + 1. id' t = Number_toString n"
  proof
    fix t assume "t \<in> set (todos (add input now created s))"
    then have "t \<in> set (todos s) \<or> id' t = Number_toString now"
      by (auto simp: todos_add split: if_splits)
    then show "\<exists>n<now + 1. id' t = Number_toString n"
    proof
      assume "t \<in> set (todos s)"
      with assms(2) obtain n where "n < now" "id' t = Number_toString n" by blast
      then have "n < now + 1 \<and> id' t = Number_toString n" by simp
      then show ?thesis ..
    next
      assume "id' t = Number_toString now"
      then have "now < now + 1 \<and> id' t = Number_toString now" by simp
      then show ?thesis ..
    qed
  qed
  from 1 2 show ?thesis ..
qed

lemma ids_of_other_handlers:
  "map id' (todos (toggleTodo i s)) = map id' (todos s)"
  "map id' (todos (edit i newText s)) = map id' (todos s)"
  "distinct (map id' (todos s)) \<Longrightarrow> distinct (map id' (todos (deleteTodo i s)))"
  "distinct (map id' (todos s)) \<Longrightarrow> distinct (map id' (todos (clearCompleted s)))"
  "set (todos (deleteTodo i s)) \<subseteq> set (todos s)"
  "set (todos (clearCompleted s)) \<subseteq> set (todos s)"
  by (simp_all add: todos_toggleTodo todos_edit todos_deleteTodo todos_clearCompleted distinct_map_filter)

lemma Number_toString_1000: "Number_toString 1000 = ''1000''"
  by (simp add: Number_toString_def digits.simps)

lemma todos_one_task:
  "todos one_task =
     [\<lparr>id' = ''1000'', text' = ''Buy milk'', completed = False, createdAt = TimeValue 1000\<rparr>]"
  by (simp add: one_task_def todos_add trim_samples Number_toString_1000 initial_def)

lemma todos_same_ms:
  "todos same_ms =
     [\<lparr>id' = ''1000'', text' = ''Walk dog'', completed = False, createdAt = TimeValue 1000\<rparr>,
      \<lparr>id' = ''1000'', text' = ''Buy milk'', completed = False, createdAt = TimeValue 1000\<rparr>]"
  by (simp add: same_ms_def todos_add trim_samples Number_toString_1000 todos_one_task)

text \<open>
  Claim C3, at an input where the code departs from it. On a list that holds "Buy milk",
  added at clock reading 1000, \<open>add\<close> of the non-blank text "Walk dog" at the same clock
  reading makes the list one longer and puts the new task first, but the id of the new
  task is the id of the task already in the list: it is not fresh.
\<close>

theorem add_id_not_fresh:
  "trim ''Walk dog'' \<noteq> []
   \<and> length (todos (add ''Walk dog'' 1000 1000 one_task)) = length (todos one_task) + 1
   \<and> text' (todos (add ''Walk dog'' 1000 1000 one_task) ! 0) = ''Walk dog''
   \<and> id' (todos (add ''Walk dog'' 1000 1000 one_task) ! 0) = ''1000''
   \<and> id' (todos (add ''Walk dog'' 1000 1000 one_task) ! 0) \<in> id' ` set (todos one_task)"
  by (simp add: todos_add todos_one_task trim_samples Number_toString_1000)

text \<open>
  Claim C1, at an input where the code departs from it. Two additions that read the same
  millisecond of the clock leave a list with the id \<^verbatim>\<open>"1000"\<close> twice; and after the task
  with id \<^verbatim>\<open>"1000"\<close> was deleted, an addition at that clock reading assigns the id again.
\<close>

theorem ids_collide:
  "map id' (todos same_ms) = [''1000'', ''1000'']
   \<and> \<not> distinct (map id' (todos same_ms))
   \<and> todos (deleteTodo ''1000'' one_task) = []
   \<and> map id' (todos (add ''Walk dog'' 1000 1000 (deleteTodo ''1000'' one_task))) = [''1000'']"
  by (simp add: todos_same_ms todos_add todos_deleteTodo todos_one_task trim_samples
      Number_toString_1000)

subsection \<open>Editing\<close>

lemma todos_edit_done:
  "i \<noteq> [] \<and> trim newText \<noteq> [] \<Longrightarrow>
   todos (edit i newText s) =
     map (\<lambda>todo. if id' todo = i then todo\<lparr>text' := trim newText\<rparr> else todo) (todos s)"
  by (simp add: todos_edit)

lemma todos_edit_refused:
  "\<not> (i \<noteq> [] \<and> trim newText \<noteq> []) \<Longrightarrow> todos (edit i newText s) = todos s"
  by (cases "i = []") (simp_all add: todos_edit)

lemma retext_matching:
  "t \<in> set (map (\<lambda>todo. if id' todo = i then todo\<lparr>text' := x\<rparr> else todo) xs) \<Longrightarrow>
   id' t = i \<Longrightarrow> text' (t :: Todo) = x"
proof (induction xs)
  case Nil
  then show ?case by simp
next
  case (Cons a xs)
  show ?case
  proof (cases "t \<in> set (map (\<lambda>todo. if id' todo = i then todo\<lparr>text' := x\<rparr> else todo) xs)")
    case True
    then show ?thesis using Cons by simp
  next
    case False
    moreover have "t = (if id' a = i then a\<lparr>text' := x\<rparr> else a) \<or>
        t \<in> set (map (\<lambda>todo. if id' todo = i then todo\<lparr>text' := x\<rparr> else todo) xs)"
      using Cons.prems(1) by (simp only: list.map list.set insert_iff)
    ultimately have "t = (if id' a = i then a\<lparr>text' := x\<rparr> else a)" by (simp only: simp_thms)
    then show ?thesis using Cons.prems(2) by (cases "id' a = i") simp_all
  qed
qed

lemma retext_all:
  "\<forall>t \<in> set xs. P (text' t) \<Longrightarrow> P x \<Longrightarrow>
   \<forall>t \<in> set (map (\<lambda>todo. if id' todo = i then todo\<lparr>text' := x\<rparr> else todo) (xs :: Todo list)).
     P (text' t)"
  by (induction xs) simp_all

lemma load_blank_id:
  "load sample_host (Some stored_blank_id) =
     ([JObject [(''id'', JString []), (''text'', JString ''old''),
                (''completed'', JBoolean False), (''createdAt'', JDate (TimeValue 0))]], [])"
  by (simp add: load_def load_try_def Array_map_def reviveTodo_def sample_host_def
      stored_undated_def stored_two_tasks_def stored_partial_def stored_blank_id_def)

lemma edit_empty_id: "todos (edit [] newText s) = todos s"
  by (simp add: todos_edit)

text \<open>
  Claim C5, at an input where the code departs from it. The list loaded from the stored
  text \<open>stored_blank_id\<close> holds one task, whose id is the empty string. \<^verbatim>\<open>startEditing\<close>
  on that task sets \<^verbatim>\<open>editingId\<close> to its id, so that the render, which compares
  \<^verbatim>\<open>editingId === todo.id\<close>, shows its edit box; but \<^verbatim>\<open>editingId &&\<close> in \<^verbatim>\<open>saveEdit\<close> is false on
  the empty string, and \<open>edit\<close> with the non-blank \<^verbatim>\<open>"  new  "\<close> leaves the text \<^verbatim>\<open>"old"\<close>.
  \<open>toggleTodo\<close> and \<open>deleteTodo\<close> take the same id as any other: they complete and remove
  the task.
\<close>

theorem edit_empty_id_ignored:
  "asTodos (fst (load sample_host (Some stored_blank_id))) = Some (todos blank_id)
   \<and> id' (todos blank_id ! 0) = []
   \<and> editingId (startEditing (todos blank_id ! 0) blank_id) = Some (id' (todos blank_id ! 0))
   \<and> trim ''  new  '' = ''new''
   \<and> map text' (todos (edit [] ''  new  '' blank_id)) = [''old'']
   \<and> map completed (todos blank_id) = [False]
   \<and> map completed (todos (toggleTodo [] blank_id)) = [True]
   \<and> todos (deleteTodo [] blank_id) = []"
  by (simp add: load_blank_id blank_id_def initial_def todos_edit trim_samples startEditing_def
      todos_toggleTodo todos_deleteTodo)

text \<open>
  What holds of editing on the code, for an id that is not the empty string. \<open>edit\<close>
  with a text that is blank after trimming leaves the list, and so every text, unchanged.
  \<open>edit\<close> with a non-empty id and a text that is not blank after trimming replaces the
  text of every task with that id by the trimmed text, which is a non-empty trimmed string,
  as is the text of a task that \<open>add\<close> creates. Hence, on a list whose texts are all
  non-empty trimmed strings, \<open>edit\<close> and \<open>add\<close> leave a list whose texts are all
  non-empty trimmed strings.
\<close>

lemma edit_text:
  "(trim newText = [] \<longrightarrow> todos (edit i newText s) = todos s)
   \<and> (i \<noteq> [] \<and> trim newText \<noteq> [] \<longrightarrow>
        todos (edit i newText s) =
          map (\<lambda>todo. if id' todo = i then todo\<lparr>text' := trim newText\<rparr> else todo) (todos s))
   \<and> (i \<noteq> [] \<and> trim newText \<noteq> [] \<longrightarrow>
        (\<forall>t \<in> set (todos (edit i newText s)).
           id' t = i \<longrightarrow> text' t = trim newText \<and> nonblank_trimmed (text' t)))
   \<and> (trim input \<noteq> [] \<longrightarrow> nonblank_trimmed (text' (todos (add input now created s) ! 0)))
   \<and> ((\<forall>t \<in> set (todos s). nonblank_trimmed (text' t)) \<longrightarrow>
        (\<forall>t \<in> set (todos (edit i newText s)). nonblank_trimmed (text' t))
        \<and> (\<forall>t \<in> set (todos (add input now created s)). nonblank_trimmed (text' t)))"
proof -
  have 1: "trim newText = [] \<longrightarrow> todos (edit i newText s) = todos s"
    by (simp add: todos_edit)
  have 2: "i \<noteq> [] \<and> trim newText \<noteq> [] \<longrightarrow>
        todos (edit i newText s) =
          map (\<lambda>todo. if id' todo = i then todo\<lparr>text' := trim newText\<rparr> else todo) (todos s)"
    by (simp add: todos_edit)
  have 3: "i \<noteq> [] \<and> trim newText \<noteq> [] \<longrightarrow>
        (\<forall>t \<in> set (todos (edit i newText s)).
           id' t = i \<longrightarrow> text' t = trim newText \<and> nonblank_trimmed (text' t))"
  proof (intro impI ballI)
    fix t
    assume a: "i \<noteq> [] \<and> trim newText \<noteq> []"
      and t: "t \<in> set (todos (edit i newText s))" and ti: "id' t = i"
    from t have "t \<in> set (map (\<lambda>todo. if id' todo = i then todo\<lparr>text' := trim newText\<rparr>
        else todo) (todos s))"
      by (simp only: todos_edit_done [OF a])
    then have "text' t = trim newText" using ti by (rule retext_matching)
    then show "text' t = trim newText \<and> nonblank_trimmed (text' t)"
      using a nonblank_trimmed_trim [of newText] by simp
  qed
  have 4: "trim input \<noteq> [] \<longrightarrow> nonblank_trimmed (text' (todos (add input now created s) ! 0))"
    by (simp add: todos_add nonblank_trimmed_trim)
  have 5: "(\<forall>t \<in> set (todos s). nonblank_trimmed (text' t)) \<longrightarrow>
        (\<forall>t \<in> set (todos (edit i newText s)). nonblank_trimmed (text' t))
        \<and> (\<forall>t \<in> set (todos (add input now created s)). nonblank_trimmed (text' t))"
  proof (intro impI conjI)
    assume inv: "\<forall>t \<in> set (todos s). nonblank_trimmed (text' t)"
    show "\<forall>t \<in> set (todos (edit i newText s)). nonblank_trimmed (text' t)"
    proof (cases "i \<noteq> [] \<and> trim newText \<noteq> []")
      case True
      then have "nonblank_trimmed (trim newText)" by (simp add: nonblank_trimmed_trim)
      with inv have "\<forall>t \<in> set (map (\<lambda>todo. if id' todo = i then todo\<lparr>text' := trim newText\<rparr>
          else todo) (todos s)). nonblank_trimmed (text' t)"
        by (rule retext_all)
      then show ?thesis by (simp only: todos_edit_done [OF True])
    next
      case False
      show ?thesis using inv by (simp only: todos_edit_refused [OF False])
    qed
    show "\<forall>t \<in> set (todos (add input now created s)). nonblank_trimmed (text' t)"
      using inv nonblank_trimmed_trim [of input] by (simp add: todos_add)
  qed
  from 1 2 3 4 5 show ?thesis by - (intro conjI, assumption+)
qed

lemma edit_text_instances:
  "trim [] = [] \<and> todos (edit ''1000'' [] two_tasks) = todos two_tasks
   \<and> ''1000'' \<noteq> [] \<and> trim ''  new  '' \<noteq> []
   \<and> todos (edit ''1000'' ''  new  '' two_tasks) =
       [\<lparr>id' = ''2000'', text' = ''Walk dog'', completed = False, createdAt = TimeValue 2000\<rparr>,
        \<lparr>id' = ''1000'', text' = ''new'', completed = False, createdAt = TimeValue 1000\<rparr>]
   \<and> nonblank_trimmed ''new''
   \<and> map text' (todos two_tasks) = [''Walk dog'', ''Buy milk'']
   \<and> nonblank_trimmed ''Walk dog'' \<and> nonblank_trimmed ''Buy milk''
   \<and> trim '' Feed cat '' \<noteq> []
   \<and> nonblank_trimmed (text' (todos (add '' Feed cat '' 3000 3000 two_tasks) ! 0))"
proof -
  note inst = edit_text [where newText = "''  new  ''" and i = "''1000''" and s = two_tasks
      and input = "'' Feed cat ''" and now = 3000 and created = 3000]
  note blank = edit_text [where newText = "[]" and i = "''1000''" and s = two_tasks
      and input = "'' Feed cat ''" and now = 3000 and created = 3000, THEN conjunct1]
  have 1: "todos (edit ''1000'' [] two_tasks) = todos two_tasks"
    using blank by (simp add: trim_samples)
  have 2: "todos (edit ''1000'' ''  new  '' two_tasks) =
       [\<lparr>id' = ''2000'', text' = ''Walk dog'', completed = False, createdAt = TimeValue 2000\<rparr>,
        \<lparr>id' = ''1000'', text' = ''new'', completed = False, createdAt = TimeValue 1000\<rparr>]"
    using inst [THEN conjunct2, THEN conjunct1] by (simp add: trim_samples todos_two_tasks)
  have 3: "nonblank_trimmed (text' (todos (add '' Feed cat '' 3000 3000 two_tasks) ! 0))"
    using inst [THEN conjunct2, THEN conjunct2, THEN conjunct2, THEN conjunct1]
    by (simp add: trim_samples)
  show ?thesis
    by (simp add: 1 2 3 trim_samples nonblank_trimmed_samples todos_two_tasks)
qed

subsection \<open>Filtering and counting\<close>

lemma filter_by_simps:
  "filter_by F_all s = todos s"
  "filter_by F_active s = filter (\<lambda>t. \<not> completed t) (todos s)"
  "filter_by F_completed s = filter completed (todos s)"
  by (simp_all add: filter_by_def filteredTodos_def)

lemma itemsLeft_count: "itemsLeft s = length (filter_by F_active s)"
  by (simp add: itemsLeft_def filter_by_simps)

lemma filter_by_subseq: "subseq (filter_by m s) (todos s)"
  by (cases m) (simp_all add: filter_by_simps)

lemma scenario_distinct_ms:
  "map text' (todos two_tasks) = [''Walk dog'', ''Buy milk'']
   \<and> map id' (filter (\<lambda>t. text' t = ''Buy milk'') (todos two_tasks)) = [''1000'']
   \<and> map text' (filter_by F_active (toggleTodo ''1000'' two_tasks)) = [''Walk dog'']
   \<and> map text' (filter_by F_completed (toggleTodo ''1000'' two_tasks)) = [''Buy milk'']
   \<and> itemsLeft (toggleTodo ''1000'' two_tasks) = 1"
  by (simp add: todos_two_tasks filter_by_simps todos_toggleTodo itemsLeft_def)

text \<open>
  Claim C8, at an input where the code departs from it. When the two additions of the
  scenario read the same millisecond of the clock, the list is "Walk dog", "Buy milk" and
  the id of "Buy milk" is \<^verbatim>\<open>"1000"\<close>; toggling that id completes both tasks, so that the
  active filter returns no task, the completed filter returns both and the count of
  active tasks is 0.
\<close>

theorem scenario_same_ms:
  "map text' (todos same_ms) = [''Walk dog'', ''Buy milk'']
   \<and> map id' (filter (\<lambda>t. text' t = ''Buy milk'') (todos same_ms)) = [''1000'']
   \<and> map text' (filter_by F_active (toggleTodo ''1000'' same_ms)) = []
   \<and> map text' (filter_by F_completed (toggleTodo ''1000'' same_ms)) = [''Walk dog'', ''Buy milk'']
   \<and> itemsLeft (toggleTodo ''1000'' same_ms) = 0"
  by (simp add: todos_same_ms filter_by_simps todos_toggleTodo itemsLeft_def)

section \<open>Properties of loading and saving\<close>

subsection \<open>Saving, then loading\<close>

lemma asTodo_ofTodo: "asTodo (ofTodo t) = Some t"
  by (simp add: ofTodo_def)

lemma asTodos_map_ofTodo: "asTodos (map ofTodo ts) = Some ts"
  by (induction ts) (simp_all add: asTodo_ofTodo)

lemma reviveTodo_saved:
  "\<forall>ms. createdAt t = TimeValue ms \<longrightarrow> Date_parse h (Date_toISOString h ms) = TimeValue ms \<Longrightarrow>
   reviveTodo h (Todo_toJSON h t) = Inr (ofTodo (reloaded t))"
  by (cases "createdAt t")
    (simp_all add: reviveTodo_def Todo_toJSON_def Date_toJSON_def ofTodo_def reloaded_def)

lemma mapE_revive_saved:
  "\<forall>t \<in> set ts. \<forall>ms. createdAt t = TimeValue ms \<longrightarrow>
      Date_parse h (Date_toISOString h ms) = TimeValue ms \<Longrightarrow>
   mapE (reviveTodo h) (map (Todo_toJSON h) ts) = Inr (map (\<lambda>t. ofTodo (reloaded t)) ts)"
proof (induction ts)
  case Nil
  show ?case by simp
next
  case (Cons t ts)
  have "reviveTodo h (Todo_toJSON h t) = Inr (ofTodo (reloaded t))"
    using Cons.prems by (intro reviveTodo_saved) simp
  moreover have "mapE (reviveTodo h) (map (Todo_toJSON h) ts) =
      Inr (map (\<lambda>t. ofTodo (reloaded t)) ts)"
    using Cons by simp
  ultimately show ?case by simp
qed

lemma asTodos_map_reloaded: "asTodos (map (\<lambda>t. ofTodo (f t)) ts) = Some (map f ts)"
  by (induction ts) (simp_all add: asTodo_ofTodo)

lemma reloaded_valid: "\<forall>t \<in> set ts. createdAt t \<noteq> InvalidDate \<Longrightarrow> map reloaded ts = ts"
proof (induction ts)
  case Nil
  show ?case by simp
next
  case (Cons t ts)
  then have "createdAt t \<noteq> InvalidDate" by simp
  then have "reloaded t = t" by (cases "createdAt t") (simp_all add: reloaded_def)
  with Cons show ?case by simp
qed

lemma save_undated: "save sample_host undated = stored_undated"
  by (simp add: save_def undated_def Todo_toJSON_def Date_toJSON_def sample_host_def)

lemma load_undated:
  "load sample_host (Some stored_undated) =
     ([JObject [(''id'', JString ''1''), (''text'', JString ''a''),
                (''completed'', JBoolean False), (''createdAt'', JDate (TimeValue 0))]], [])"
  by (simp add: load_def load_try_def Array_map_def reviveTodo_def sample_host_def
      stored_undated_def stored_two_tasks_def)

lemma save_two_tasks: "save sample_host (todos two_tasks) = stored_two_tasks"
  by (simp add: save_def todos_two_tasks Todo_toJSON_def Date_toJSON_def sample_host_def)

text \<open>
  Claim C2 as it is written fails on a list that holds an invalid date: the date is
  saved as \<^verbatim>\<open>null\<close>, and \<^verbatim>\<open>new Date(null)\<close> is the epoch.
\<close>

theorem save_load_invalid_date_counterexample:
  "createdAt (undated ! 0) = InvalidDate
   \<and> save sample_host undated = stored_undated
   \<and> asTodos (fst (load sample_host (Some (save sample_host undated)))) =
       Some [\<lparr>id' = ''1'', text' = ''a'', completed = False, createdAt = TimeValue 0\<rparr>]
   \<and> asTodos (fst (load sample_host (Some (save sample_host undated)))) \<noteq> Some undated"
  by (simp add: save_undated load_undated) (simp add: undated_def)

text \<open>
  Claim C2, amended: an invalid date comes back as the epoch. On a host whose
  \<^verbatim>\<open>JSON.parse\<close> reads back the value of which \<^verbatim>\<open>JSON.stringify\<close> wrote the text, for the value
  of every task list, that text never being empty, and whose \<^verbatim>\<open>Date.parse\<close> reads back what
  \<^verbatim>\<open>toISOString\<close> wrote for the valid timestamps of the list: loading what the save effect
  wrote for a list reports nothing and gives the tasks of that list, in their order, with
  the same \<open>id\<close>, \<open>text\<close> and \<open>completed\<close>, and with the same \<open>createdAt\<close> unless it was
  an invalid date, which is then the epoch. So a list whose \<open>createdAt\<close> are all valid
  dates comes back equal to the original.
\<close>

theorem save_load_roundtrip:
  "(\<forall>us. JSON_text h (JArray (map (Todo_toJSON h) us)) \<noteq> []
        \<and> JSON_parse h (JSON_text h (JArray (map (Todo_toJSON h) us))) =
            Some (JArray (map (Todo_toJSON h) us)))
   \<and> (\<forall>t \<in> set ts. \<forall>ms. createdAt t = TimeValue ms \<longrightarrow>
          Date_parse h (Date_toISOString h ms) = TimeValue ms)
   \<longrightarrow> load h (Some (save h ts)) = (map (\<lambda>t. ofTodo (reloaded t)) ts, [])
       \<and> asTodos (fst (load h (Some (save h ts)))) = Some (map reloaded ts)
       \<and> ((\<forall>t \<in> set ts. createdAt t \<noteq> InvalidDate) \<longrightarrow>
            asTodos (fst (load h (Some (save h ts)))) = Some ts)"
proof (intro impI, elim conjE)
  assume json: "\<forall>us. JSON_text h (JArray (map (Todo_toJSON h) us)) \<noteq> []
        \<and> JSON_parse h (JSON_text h (JArray (map (Todo_toJSON h) us))) =
            Some (JArray (map (Todo_toJSON h) us))"
    and dates: "\<forall>t \<in> set ts. \<forall>ms. createdAt t = TimeValue ms \<longrightarrow>
          Date_parse h (Date_toISOString h ms) = TimeValue ms"
  from json have ne: "save h ts \<noteq> []"
    and parse: "JSON_parse h (save h ts) = Some (JArray (map (Todo_toJSON h) ts))"
    unfolding save_def by blast+
  have "load_try h (save h ts) = Inr (map (\<lambda>t. ofTodo (reloaded t)) ts)"
    by (simp add: load_try_def parse Array_map_def mapE_revive_saved [OF dates])
  then have l: "load h (Some (save h ts)) = (map (\<lambda>t. ofTodo (reloaded t)) ts, [])"
    using ne by (simp add: load_def)
  have a: "asTodos (fst (load h (Some (save h ts)))) = Some (map reloaded ts)"
    by (simp add: l asTodos_map_reloaded)
  have v: "(\<forall>t \<in> set ts. createdAt t \<noteq> InvalidDate) \<longrightarrow>
      asTodos (fst (load h (Some (save h ts)))) = Some ts"
    using a by (simp add: reloaded_valid)
  from l a v show "load h (Some (save h ts)) = (map (\<lambda>t. ofTodo (reloaded t)) ts, [])
       \<and> asTodos (fst (load h (Some (save h ts)))) = Some (map reloaded ts)
       \<and> ((\<forall>t \<in> set ts. createdAt t \<noteq> InvalidDate) \<longrightarrow>
            asTodos (fst (load h (Some (save h ts)))) = Some ts)"
    by (intro conjI)
qed

text \<open>
  The host \<open>codec_host\<close> is one such host: its parser reads back what its printer wrote
  for every task list.
\<close>

lemma hexval_hexdigit: "n < 16 \<Longrightarrow> hexval (hexdigit n) = Some n"
proof -
  assume "n < 16"
  then have "n \<in> {0, 1, 2, 3, 4, 5, 6, 7, 8, 9, 10, 11, 12, 13, 14, 15}" by (simp, arith)
  then show ?thesis by (elim insertE) (simp_all add: hexval_def hexdigit_def)
qed

lemma hex4_control:
  assumes "(of_char c :: nat) < 32"
  shows "hex4 (CHR ''0'') (CHR ''0'') (hexdigit (of_char c div 16)) (hexdigit (of_char c mod 16)) = Some c"
proof -
  have z: "hexval (CHR ''0'') = Some 0" by (simp add: hexval_def)
  have a: "hexval (hexdigit (of_char c div 16)) = Some (of_char c div 16)"
    using assms by (intro hexval_hexdigit) simp
  have b: "hexval (hexdigit (of_char c mod 16)) = Some (of_char c mod 16)"
    by (intro hexval_hexdigit) simp
  show ?thesis using assms by (simp add: hex4_def z a b)
qed

lemma unquote_escape:
  "unquote (JSON_escape c @ xs) =
     (case unquote xs of None \<Rightarrow> None | Some (s, rest) \<Rightarrow> Some (c # s, rest))"
proof -
  consider "c = CHR 0x22" | "c = CHR 0x5C" | "c = CHR 0x08" | "c = CHR 0x09" | "c = CHR 0x0A"
    | "c = CHR 0x0C" | "c = CHR 0x0D"
    | "c \<noteq> CHR 0x22" "c \<noteq> CHR 0x5C" "c \<noteq> CHR 0x08" "c \<noteq> CHR 0x09" "c \<noteq> CHR 0x0A"
      "c \<noteq> CHR 0x0C" "c \<noteq> CHR 0x0D" "(of_char c :: nat) < 32"
    | "c \<noteq> CHR 0x22" "c \<noteq> CHR 0x5C" "\<not> (of_char c :: nat) < 32"
    by blast
  then show ?thesis
  proof cases
    case 8
    then show ?thesis
      by (simp add: JSON_escape_def unquote.simps(2) hex4_control)
  next
    case 9
    then have "JSON_escape c = [c]" by (auto simp: JSON_escape_def)
    with 9 show ?thesis by (simp add: unquote.simps(2))
  qed (hypsubst, simp add: JSON_escape_def unquote.simps(2) unescape_def)+
qed

lemma unquote_body:
  "unquote (concat (map JSON_escape s) @ CHR 0x22 # rest) = Some (s, rest)"
proof (induction s)
  case Nil
  show ?case by (simp add: unquote.simps(2))
next
  case (Cons c s)
  show ?case by (simp add: unquote_escape Cons)
qed

lemma unquote_quote: "unquote (tl (JSON_quote s) @ rest) = Some (s, rest)"
  using unquote_body [of s rest] by (simp add: JSON_quote_def)

lemma expect_append: "expect p (p @ r) = Some r"
  by (induction p) simp_all

lemma parse_string_quote: "parse_string (JSON_quote s @ rest) = Some (JString s, rest)"
  using unquote_body [of s rest] by (simp add: parse_string_def JSON_quote_def)

lemma JSON_quote_keys:
  \<open>JSON_quote ''id'' = ''"id"''\<close> \<open>JSON_quote ''text'' = ''"text"''\<close>
  \<open>JSON_quote ''completed'' = ''"completed"''\<close> \<open>JSON_quote ''createdAt'' = ''"createdAt"''\<close>
  by (simp_all add: JSON_quote_def JSON_escape_def)

lemma task_text:
  \<open>JSON_element (Todo_toJSON h t) =
     ''{"id":'' @ JSON_quote (id' t) @ '',"text":'' @ JSON_quote (text' t) @
     '',"completed":'' @ (if completed t then ''true'' else ''false'') @
     '',"createdAt":'' @ JSON_flat (Date_toJSON h (createdAt t)) @ ''}''\<close>
  by (simp add: JSON_element_def Todo_toJSON_def JSON_member_def JSON_quote_keys JSON_flat_def)

lemma parse_boolean_text:
  "parse_boolean ((if b then ''true'' else ''false'') @ rest) = Some (JBoolean b, rest)"
  by (simp add: parse_boolean_def)

lemma parse_date_text:
  "parse_string_or_null (JSON_flat (Date_toJSON h d) @ rest) = Some (Date_toJSON h d, rest)"
proof (cases d)
  case (TimeValue ms)
  have "expect ''null'' (JSON_quote (Date_toISOString h ms) @ rest) = None"
    by (simp add: JSON_quote_def)
  then show ?thesis
    by (simp add: TimeValue Date_toJSON_def JSON_flat_def parse_string_or_null_def parse_string_quote)
next
  case InvalidDate
  then show ?thesis by (simp add: Date_toJSON_def JSON_flat_def parse_string_or_null_def)
qed

lemma parse_task_text:
  "parse_task (JSON_element (Todo_toJSON h t) @ rest) = Some (Todo_toJSON h t, rest)"
proof -
  have 1: \<open>expect ''{"id":'' (JSON_element (Todo_toJSON h t) @ rest) =
      Some (JSON_quote (id' t) @ '',"text":'' @ JSON_quote (text' t) @
     '',"completed":'' @ (if completed t then ''true'' else ''false'') @
     '',"createdAt":'' @ JSON_flat (Date_toJSON h (createdAt t)) @ ''}'' @ rest)\<close>
    unfolding task_text append_assoc by (rule expect_append)
  show ?thesis
    unfolding parse_task_def 1
    by (simp only: parse_string_quote expect_append parse_boolean_text parse_date_text
        option.case prod.case Todo_toJSON_def)
qed

lemma JSON_element_not_Nil: "JSON_element (Todo_toJSON h t) \<noteq> []"
  by (simp add: task_text)

lemma length_commas: "\<forall>x \<in> set xs. x \<noteq> [] \<Longrightarrow> length xs \<le> length (commas xs)"
proof (induction xs rule: commas.induct)
  case 1
  show ?case by simp
next
  case (2 x)
  then show ?case by (cases x) simp_all
next
  case (3 x y zs)
  then show ?case by simp
qed

lemma parse_tasks_text:
  "ts \<noteq> [] \<Longrightarrow> length ts \<le> n \<Longrightarrow>
   parse_tasks n (commas (map (\<lambda>t. JSON_element (Todo_toJSON h t)) ts) @ '']'') =
     Some (map (Todo_toJSON h) ts)"
proof (induction ts arbitrary: n)
  case Nil
  then show ?case by simp
next
  case (Cons t ts)
  from Cons.prems obtain m where n: "n = Suc m" and m: "length ts \<le> m" by (cases n) simp_all
  show ?case
  proof (cases ts)
    case Nil
    show ?thesis by (simp add: Nil n parse_task_text)
  next
    case (Cons u us)
    have "parse_tasks m (commas (map (\<lambda>t. JSON_element (Todo_toJSON h t)) ts) @ '']'') =
        Some (map (Todo_toJSON h) ts)"
      using Cons m by (intro Cons.IH) simp_all
    then show ?thesis
      by (simp add: Cons n parse_task_text)
  qed
qed

lemma parse_array_text:
  "parse_array (JSON_print (JArray (map (Todo_toJSON h) ts))) = Some (JArray (map (Todo_toJSON h) ts))"
proof (cases ts)
  case Nil
  then show ?thesis by (simp add: parse_array_def JSON_print_def)
next
  case (Cons t us)
  define r where "r = commas (map (\<lambda>t. JSON_element (Todo_toJSON h t)) ts) @ '']''"
  have e: "JSON_print (JArray (map (Todo_toJSON h) ts)) = CHR ''['' # r"
    by (simp add: JSON_print_def r_def comp_def)
  have "hd r = CHR ''{''"
    by (cases us) (simp_all add: r_def Cons task_text)
  then have ne: "r \<noteq> '']''" by auto
  have "length ts \<le> length (commas (map (\<lambda>t. JSON_element (Todo_toJSON h t)) ts))"
    using length_commas [of "map (\<lambda>t. JSON_element (Todo_toJSON h t)) ts"]
    by (simp add: JSON_element_not_Nil)
  then have "length ts \<le> length r" by (simp add: r_def)
  moreover have "ts \<noteq> []" by (simp add: Cons)
  ultimately have "parse_tasks (length r) r = Some (map (Todo_toJSON h) ts)"
    unfolding r_def by (intro parse_tasks_text)
  then show ?thesis by (simp add: parse_array_def e ne)
qed

lemma codec_host_reads_back:
  "JSON_text codec_host (JArray (map (Todo_toJSON codec_host) us)) \<noteq> []
   \<and> JSON_parse codec_host (JSON_text codec_host (JArray (map (Todo_toJSON codec_host) us))) =
       Some (JArray (map (Todo_toJSON codec_host) us))"
  by (simp add: codec_host_def parse_array_text) (simp add: JSON_print_def)

lemma save_codec_two_tasks: "save codec_host (todos two_tasks) = stored_two_tasks"
  by (simp add: save_def codec_host_def sample_host_def todos_two_tasks JSON_print_def
      JSON_element_def Todo_toJSON_def Date_toJSON_def JSON_member_def JSON_flat_def
      JSON_quote_def JSON_escape_def stored_two_tasks_def)

lemma save_codec_undated: "save codec_host undated = stored_undated"
  by (simp add: save_def codec_host_def sample_host_def undated_def JSON_print_def
      JSON_element_def Todo_toJSON_def Date_toJSON_def JSON_member_def JSON_flat_def
      JSON_quote_def JSON_escape_def stored_undated_def)

theorem save_load_roundtrip_witness:
  "(\<forall>us. JSON_text codec_host (JArray (map (Todo_toJSON codec_host) us)) \<noteq> []
        \<and> JSON_parse codec_host (JSON_text codec_host (JArray (map (Todo_toJSON codec_host) us))) =
            Some (JArray (map (Todo_toJSON codec_host) us)))
   \<and> map createdAt (todos two_tasks) = [TimeValue 2000, TimeValue 1000]
   \<and> Date_parse codec_host (Date_toISOString codec_host 2000) = TimeValue 2000
   \<and> Date_parse codec_host (Date_toISOString codec_host 1000) = TimeValue 1000
   \<and> save codec_host (todos two_tasks) = stored_two_tasks
   \<and> asTodos (fst (load codec_host (Some stored_two_tasks))) = Some (todos two_tasks)
   \<and> map createdAt undated = [InvalidDate]
   \<and> save codec_host undated = stored_undated
   \<and> asTodos (fst (load codec_host (Some stored_undated))) =
       Some [\<lparr>id' = ''1'', text' = ''a'', completed = False, createdAt = TimeValue 0\<rparr>]"
proof -
  have json: "\<forall>us. JSON_text codec_host (JArray (map (Todo_toJSON codec_host) us)) \<noteq> []
        \<and> JSON_parse codec_host (JSON_text codec_host (JArray (map (Todo_toJSON codec_host) us))) =
            Some (JArray (map (Todo_toJSON codec_host) us))"
    using codec_host_reads_back by blast
  have d: "Date_parse codec_host (Date_toISOString codec_host 2000) = TimeValue 2000"
    "Date_parse codec_host (Date_toISOString codec_host 1000) = TimeValue 1000"
    by (simp_all add: codec_host_def sample_host_def)
  have c: "map createdAt (todos two_tasks) = [TimeValue 2000, TimeValue 1000]"
    "map createdAt undated = [InvalidDate]"
    by (simp_all add: todos_two_tasks undated_def)
  have dates2: "\<forall>t \<in> set (todos two_tasks). \<forall>ms. createdAt t = TimeValue ms \<longrightarrow>
      Date_parse codec_host (Date_toISOString codec_host ms) = TimeValue ms"
    using d by (simp add: todos_two_tasks)
  have valid2: "\<forall>t \<in> set (todos two_tasks). createdAt t \<noteq> InvalidDate"
    by (simp add: todos_two_tasks)
  have dates1: "\<forall>t \<in> set undated. \<forall>ms. createdAt t = TimeValue ms \<longrightarrow>
      Date_parse codec_host (Date_toISOString codec_host ms) = TimeValue ms"
    by (simp add: undated_def)
  note two = save_load_roundtrip [of codec_host "todos two_tasks", THEN mp, OF conjI, OF json dates2]
  note one = save_load_roundtrip [of codec_host undated, THEN mp, OF conjI, OF json dates1]
  have 1: "asTodos (fst (load codec_host (Some stored_two_tasks))) = Some (todos two_tasks)"
    using two [THEN conjunct2, THEN conjunct2, THEN mp, OF valid2]
    by (simp only: save_codec_two_tasks)
  have "asTodos (fst (load codec_host (Some stored_undated))) = Some (map reloaded undated)"
    using one [THEN conjunct2, THEN conjunct1] by (simp only: save_codec_undated)
  then have 2: "asTodos (fst (load codec_host (Some stored_undated))) =
       Some [\<lparr>id' = ''1'', text' = ''a'', completed = False, createdAt = TimeValue 0\<rparr>]"
    by (simp add: undated_def reloaded_def)
  from json d c 1 2 save_codec_two_tasks save_codec_undated show ?thesis
    by (intro conjI)
qed

subsection \<open>Loading any stored text\<close>

lemma task_of_record_SomeD:
  "task_of_record h v = Some t \<Longrightarrow>
   \<exists>kvs d. v = JObject kvs \<and> map_of kvs ''id'' = Some (JString (id' t))
     \<and> map_of kvs ''text'' = Some (JString (text' t))
     \<and> map_of kvs ''completed'' = Some (JBoolean (completed t))
     \<and> map_of kvs ''createdAt'' = Some (JString d) \<and> createdAt t = Date_parse h d"
  by (cases v) (auto split: option.splits jsval.splits)

lemma revive_task_record:
  assumes "task_of_record h v = Some t"
  shows "\<exists>ob. reviveTodo h v = Inr ob \<and> asTodo ob = Some t"
proof -
  from task_of_record_SomeD [OF assms] obtain kvs d where
    v: "v = JObject kvs" and i: "map_of kvs ''id'' = Some (JString (id' t))"
    and x: "map_of kvs ''text'' = Some (JString (text' t))"
    and c: "map_of kvs ''completed'' = Some (JBoolean (completed t))"
    and d: "map_of kvs ''createdAt'' = Some (JString d)" and t: "createdAt t = Date_parse h d"
    by blast
  have r: "reviveTodo h v = Inr (JObject (AList.update ''createdAt'' (JDate (Date_parse h d)) kvs))"
    by (simp add: reviveTodo_def v d)
  have "asTodo (JObject (AList.update ''createdAt'' (JDate (Date_parse h d)) kvs)) = Some t"
    by (simp add: update_conv' i x c t [symmetric])
  with r show ?thesis by simp
qed

lemma mapE_tasks:
  "tasks_of_records h xs = Some ts \<Longrightarrow>
   \<exists>ys. mapE (reviveTodo h) xs = Inr ys \<and> asTodos ys = Some ts"
proof (induction xs arbitrary: ts)
  case Nil
  then show ?case by simp
next
  case (Cons v vs)
  from Cons.prems obtain t ts' where t: "task_of_record h v = Some t"
    and ts': "tasks_of_records h vs = Some ts'" and ts: "ts = t # ts'"
    by (auto split: option.splits)
  from revive_task_record [OF t] obtain ob where ob: "reviveTodo h v = Inr ob" "asTodo ob = Some t"
    by blast
  from Cons.IH [OF ts'] obtain ys where
    ys: "mapE (reviveTodo h) vs = Inr ys" "asTodos ys = Some ts'"
    by blast
  show ?case by (simp add: ob ys ts)
qed

lemma mapE_null: "JNull \<in> set xs \<Longrightarrow> \<exists>e. mapE (reviveTodo h) xs = Inl e"
proof (induction xs)
  case Nil
  then show ?case by simp
next
  case (Cons v vs)
  show ?case
  proof (cases "v = JNull")
    case True
    then show ?thesis by (simp add: reviveTodo_def)
  next
    case False
    with Cons obtain e where "mapE (reviveTodo h) vs = Inl e" by auto
    then show ?thesis by (simp split: sum.splits)
  qed
qed

lemma mapE_length: "mapE f xs = Inr ys \<Longrightarrow> length ys = length xs"
  by (induction xs arbitrary: ys) (auto split: sum.splits)

lemma load_caught: "s \<noteq> [] \<Longrightarrow> load_try h s = Inl e \<Longrightarrow> load h (Some s) = ([], [e])"
  by (simp add: load_def)

lemma load_set: "s \<noteq> [] \<Longrightarrow> load_try h s = Inr ys \<Longrightarrow> load h (Some s) = (ys, [])"
  by (simp add: load_def)

lemma Array_map_not_array: "\<forall>xs. v \<noteq> JArray xs \<Longrightarrow> Array_map f v = Inl TypeError"
  by (cases v) (simp_all add: Array_map_def)

lemma load_partial:
  "load sample_host (Some stored_partial) =
     ([JObject [(''text'', JString ''a''), (''createdAt'', JDate InvalidDate)]], [])"
  by (simp add: load_def load_try_def Array_map_def reviveTodo_def sample_host_def
      stored_undated_def stored_two_tasks_def stored_partial_def)

text \<open>
  Claim C7 as it is written fails on a stored array whose element is no task record: the
  text \<^verbatim>\<open>[{"text":"a"}]\<close> parses, is not a valid stored representation, and yet the list
  after loading is not empty (it holds the element, with an invalid date added, which is
  no \<^verbatim>\<open>Todo\<close>), and nothing is reported.
\<close>

theorem load_partial_record_counterexample:
  "JSON_parse sample_host stored_partial = Some (JArray [JObject [(''text'', JString ''a'')]])
   \<and> tasks_of_records sample_host [JObject [(''text'', JString ''a'')]] = None
   \<and> load sample_host (Some stored_partial) =
       ([JObject [(''text'', JString ''a''), (''createdAt'', JDate InvalidDate)]], [])
   \<and> asTodos (fst (load sample_host (Some stored_partial))) = None"
proof -
  have "JSON_parse sample_host stored_partial = Some (JArray [JObject [(''text'', JString ''a'')]])"
    by (simp add: sample_host_def stored_partial_def stored_two_tasks_def stored_undated_def)
  then show ?thesis by (simp add: load_partial)
qed

text \<open>
  Claim C7, amended: a stored array is taken as it is, whether or not its elements are
  task records. The load effect always ends with a list and a console, and raises
  nothing. When nothing is stored, or the empty string, the list is empty and nothing is
  reported. When the stored text is not empty: every exception of the \<^verbatim>\<open>try\<close> block leaves
  the list empty and goes to the console alone, which is what happens when \<^verbatim>\<open>JSON.parse\<close>
  throws (a \<^verbatim>\<open>SyntaxError\<close>), when the parsed value is no array (a \<^verbatim>\<open>TypeError\<close>) and when an
  element of the array is \<^verbatim>\<open>null\<close>; when the callback throws on no element of the parsed
  array, the list is the array of its results, as long as the parsed array, and nothing
  is reported; and when the parsed array is an array of task records, the list is the
  list of their tasks, each timestamp made by \<^verbatim>\<open>Date.parse\<close> from its stored string.
\<close>

theorem load_outcomes:
  "load h None = ([], [])
   \<and> load h (Some []) = ([], [])
   \<and> (s \<noteq> [] \<longrightarrow>
        (load_try h s = Inl e \<longrightarrow> load h (Some s) = ([], [e]))
      \<and> (JSON_parse h s = None \<longrightarrow> load h (Some s) = ([], [SyntaxError]))
      \<and> (JSON_parse h s = Some v \<and> (\<forall>xs. v \<noteq> JArray xs) \<longrightarrow>
            load h (Some s) = ([], [TypeError]))
      \<and> (JSON_parse h s = Some (JArray xs) \<and> JNull \<in> set xs \<longrightarrow>
            (\<exists>e'. load h (Some s) = ([], [e'])))
      \<and> (JSON_parse h s = Some (JArray xs) \<and> mapE (reviveTodo h) xs = Inr ys \<longrightarrow>
            load h (Some s) = (ys, []) \<and> length ys = length xs)
      \<and> (JSON_parse h s = Some (JArray xs) \<and> tasks_of_records h xs = Some ts \<longrightarrow>
            snd (load h (Some s)) = [] \<and> asTodos (fst (load h (Some s))) = Some ts))"
proof (intro conjI impI)
  show "load h None = ([], [])" by (simp add: load_def)
  show "load h (Some []) = ([], [])" by (simp add: load_def)
next
  assume "s \<noteq> []" "load_try h s = Inl e"
  then show "load h (Some s) = ([], [e])" by (rule load_caught)
next
  assume s: "s \<noteq> []" and "JSON_parse h s = None"
  then have "load_try h s = Inl SyntaxError" by (simp add: load_try_def)
  with s show "load h (Some s) = ([], [SyntaxError])" by (rule load_caught)
next
  assume s: "s \<noteq> []" and "JSON_parse h s = Some v \<and> (\<forall>xs. v \<noteq> JArray xs)"
  then have "load_try h s = Inl TypeError" by (simp add: load_try_def Array_map_not_array)
  with s show "load h (Some s) = ([], [TypeError])" by (rule load_caught)
next
  assume s: "s \<noteq> []" and a: "JSON_parse h s = Some (JArray xs) \<and> JNull \<in> set xs"
  then obtain e' where "mapE (reviveTodo h) xs = Inl e'" using mapE_null by blast
  with a have "load_try h s = Inl e'" by (simp add: load_try_def Array_map_def)
  with s have "load h (Some s) = ([], [e'])" by (rule load_caught)
  then show "\<exists>e'. load h (Some s) = ([], [e'])" ..
next
  assume s: "s \<noteq> []"
    and a: "JSON_parse h s = Some (JArray xs) \<and> mapE (reviveTodo h) xs = Inr ys"
  then have "load_try h s = Inr ys" by (simp add: load_try_def Array_map_def)
  with s show "load h (Some s) = (ys, [])" by (rule load_set)
  from a have "mapE (reviveTodo h) xs = Inr ys" by simp
  then show "length ys = length xs" by (rule mapE_length)
next
  assume s: "s \<noteq> []"
    and a: "JSON_parse h s = Some (JArray xs) \<and> tasks_of_records h xs = Some ts"
  then obtain ys where ys: "mapE (reviveTodo h) xs = Inr ys" "asTodos ys = Some ts"
    using mapE_tasks by blast
  with a have "load_try h s = Inr ys" by (simp add: load_try_def Array_map_def)
  with s have l: "load h (Some s) = (ys, [])" by (rule load_set)
  show "snd (load h (Some s)) = []" by (simp add: l)
  show "asTodos (fst (load h (Some s))) = Some ts" by (simp add: l ys)
qed

theorem load_outcomes_witness:
  "JSON_parse sample_host ''not json'' = None
   \<and> load sample_host (Some ''not json'') = ([], [SyntaxError])
   \<and> JSON_parse sample_host ''{}'' = Some (JObject [])
   \<and> load sample_host (Some ''{}'') = ([], [TypeError])
   \<and> JSON_parse sample_host ''[null]'' = Some (JArray [JNull])
   \<and> load sample_host (Some ''[null]'') = ([], [TypeError])
   \<and> tasks_of_records sample_host
         [JObject [(''id'', JString ''2000''), (''text'', JString ''Walk dog''),
                   (''completed'', JBoolean False),
                   (''createdAt'', JString ''1970-01-01T00:00:02.000Z'')],
          JObject [(''id'', JString ''1000''), (''text'', JString ''Buy milk''),
                   (''completed'', JBoolean False),
                   (''createdAt'', JString ''1970-01-01T00:00:01.000Z'')]] = Some (todos two_tasks)
   \<and> snd (load sample_host (Some stored_two_tasks)) = []
   \<and> asTodos (fst (load sample_host (Some stored_two_tasks))) = Some (todos two_tasks)"
proof -
  have p1: "JSON_parse sample_host ''not json'' = None"
    and p2: "JSON_parse sample_host ''{}'' = Some (JObject [])"
    and p3: "JSON_parse sample_host ''[null]'' = Some (JArray [JNull])"
    by (simp_all add: sample_host_def stored_partial_def stored_two_tasks_def stored_undated_def
        stored_blank_id_def)
  have p4: "JSON_parse sample_host stored_two_tasks = Some (JArray
         [JObject [(''id'', JString ''2000''), (''text'', JString ''Walk dog''),
                   (''completed'', JBoolean False),
                   (''createdAt'', JString ''1970-01-01T00:00:02.000Z'')],
          JObject [(''id'', JString ''1000''), (''text'', JString ''Buy milk''),
                   (''completed'', JBoolean False),
                   (''createdAt'', JString ''1970-01-01T00:00:01.000Z'')]])"
    by (simp add: sample_host_def)
  have t4: "tasks_of_records sample_host
         [JObject [(''id'', JString ''2000''), (''text'', JString ''Walk dog''),
                   (''completed'', JBoolean False),
                   (''createdAt'', JString ''1970-01-01T00:00:02.000Z'')],
          JObject [(''id'', JString ''1000''), (''text'', JString ''Buy milk''),
                   (''completed'', JBoolean False),
                   (''createdAt'', JString ''1970-01-01T00:00:01.000Z'')]] = Some (todos two_tasks)"
    by (simp add: sample_host_def todos_two_tasks)
  have n: "''not json'' \<noteq> []" "''{}'' \<noteq> []" "''[null]'' \<noteq> []" "stored_two_tasks \<noteq> []"
    by (simp_all add: stored_two_tasks_def)
  have 1: "load sample_host (Some ''not json'') = ([], [SyntaxError])"
    using load_outcomes [where h = sample_host and s = "''not json''"] n(1) p1 by blast
  have 2: "load sample_host (Some ''{}'') = ([], [TypeError])"
    using load_outcomes [where h = sample_host and s = "''{}''" and v = "JObject []"] n(2) p2
    by blast
  have "\<exists>e'. load sample_host (Some ''[null]'') = ([], [e'])"
    using load_outcomes [where h = sample_host and s = "''[null]''" and xs = "[JNull]"] n(3) p3
    by simp
  moreover have "load_try sample_host ''[null]'' = Inl TypeError"
    by (simp add: load_try_def p3 Array_map_def reviveTodo_def)
  ultimately have 3: "load sample_host (Some ''[null]'') = ([], [TypeError])"
    by (simp add: load_def)
  have 4: "snd (load sample_host (Some stored_two_tasks)) = []
      \<and> asTodos (fst (load sample_host (Some stored_two_tasks))) = Some (todos two_tasks)"
    using load_outcomes [where h = sample_host and s = stored_two_tasks and ts = "todos two_tasks"
        and xs = "[JObject [(''id'', JString ''2000''), (''text'', JString ''Walk dog''),
                   (''completed'', JBoolean False),
                   (''createdAt'', JString ''1970-01-01T00:00:02.000Z'')],
          JObject [(''id'', JString ''1000''), (''text'', JString ''Buy milk''),
                   (''completed'', JBoolean False),
                   (''createdAt'', JString ''1970-01-01T00:00:01.000Z'')]]"] n(4) p4 t4
    by blast
  from p1 p2 p3 t4 1 2 3 4 show ?thesis by (simp only: simp_thms)
qed

end
